theory Spec2Isabelle
  imports Complex_Main "HOL-Library.Word" "HOL-Library.Log_Nat"
begin

section \<open>gpumon: a shallow embedding of main.cpp\<close>

text \<open>
  The program polls text files below a device directory, turns each reading into a
  pair of a label and a fraction, and draws one bracketed bar per reading with curses.
  The embedding follows main.cpp function by function. C++ exceptions are values of a
  sum type, undefined behaviour is an outcome of its own, the curses calls of a function
  are the list it returns, and the file system is a map from paths to bytes.
\<close>

subsection \<open>The type double\<close>

text \<open>
  A \<open>double\<close> is an IEEE 754 binary64 value: not-a-number, one of the two infinities, or
  a finite number. The two zeros are one value \<open>Fin 0\<close>: the program never divides by a
  zero that was computed with a negative sign (every divisor is converted from an
  unsigned integer), and no other operation it uses tells the zeros apart. Arithmetic
  rounds the exact result to the nearest representable number, ties to the even
  significand; \<open>round_double\<close> writes that out on the exact real result.
\<close>

datatype double = NaN | PInf | NInf | Fin real

definition pow2 :: "int \<Rightarrow> real" where
  "pow2 e = (if 0 \<le> e then 2 ^ nat e else 1 / 2 ^ nat (- e))"

text \<open>\<open>ilog2 x\<close> is the binary exponent of a positive \<open>x\<close>: the largest \<open>k\<close> with \<open>2^k \<le> x\<close>.\<close>

definition ilog2 :: "real \<Rightarrow> int" where
  "ilog2 x = (if 1 \<le> x then bitlen \<lfloor>x\<rfloor> - 1 else - bitlen (\<lceil>1 / x\<rceil> - 1))"

definition round_half_even :: "real \<Rightarrow> int" where
  "round_half_even y =
     (let f = \<lfloor>y\<rfloor>; r = y - of_int f
      in if r < 1 / 2 then f else if 1 / 2 < r then f + 1
         else if even f then f else f + 1)"

text \<open>
  Rounding to binary64: the unit in the last place is \<open>2^e\<close>, 52 binary places below the
  exponent of \<open>x\<close>, and never below \<open>2^-1074\<close> (the subnormal range). A rounded magnitude
  of \<open>2^1024\<close> or more overflows to an infinity.
\<close>

definition round_double :: "real \<Rightarrow> double" where
  "round_double x =
     (if x = 0 then Fin 0
      else let e = max (ilog2 \<bar>x\<bar>) (- 1022) - 52;
               v = of_int (round_half_even (x / pow2 e)) * pow2 e
           in if pow2 1024 \<le> \<bar>v\<bar> then (if 0 < x then PInf else NInf) else Fin v)"

definition signed_inf :: "bool \<Rightarrow> double" where
  "signed_inf positive = (if positive then PInf else NInf)"

text \<open>The operator \<open><\<close> on doubles: every comparison with a NaN is false.\<close>

fun dlt :: "double \<Rightarrow> double \<Rightarrow> bool" where
  "dlt NaN y = False"
| "dlt x NaN = False"
| "dlt (Fin a) (Fin b) = (a < b)"
| "dlt x PInf = (x \<noteq> PInf)"
| "dlt NInf y = (y \<noteq> NInf)"
| "dlt x y = False"

fun dmul :: "double \<Rightarrow> double \<Rightarrow> double" where
  "dmul NaN y = NaN"
| "dmul x NaN = NaN"
| "dmul (Fin a) (Fin b) = round_double (a * b)"
| "dmul (Fin a) y = (if a = 0 then NaN else signed_inf ((0 < a) = (y = PInf)))"
| "dmul x (Fin b) = (if b = 0 then NaN else signed_inf ((0 < b) = (x = PInf)))"
| "dmul x y = signed_inf (x = y)"

fun ddiv :: "double \<Rightarrow> double \<Rightarrow> double" where
  "ddiv NaN y = NaN"
| "ddiv x NaN = NaN"
| "ddiv (Fin a) (Fin b) =
     (if b = 0 then (if a = 0 then NaN else signed_inf (0 < a)) else round_double (a / b))"
| "ddiv (Fin a) y = Fin 0"
| "ddiv x (Fin b) = signed_inf ((x = PInf) = (0 \<le> b))"
| "ddiv x y = NaN"

fun dsub :: "double \<Rightarrow> double \<Rightarrow> double" where
  "dsub NaN y = NaN"
| "dsub x NaN = NaN"
| "dsub (Fin a) (Fin b) = round_double (a - b)"
| "dsub (Fin a) y = signed_inf (y = NInf)"
| "dsub x (Fin b) = x"
| "dsub x y = (if x = y then NaN else x)"

text \<open>
  \<open>std::clamp(v, lo, hi)\<close> is \<open>(v < lo) ? lo : (hi < v) ? hi : v\<close>. Both comparisons are
  false for a NaN, which is therefore returned as it is.
\<close>

definition std_clamp :: "double \<Rightarrow> double \<Rightarrow> double \<Rightarrow> double" where
  "std_clamp v lo hi = (if dlt v lo then lo else if dlt hi v then hi else v)"

subsection \<open>Machine integers\<close>

text \<open>
  \<open>int\<close> is 32 bits wide and signed; an \<open>int\<close> expression whose value leaves that range has
  undefined behaviour. \<open>unsigned long long\<close> is a 64-bit word, whose arithmetic wraps.
\<close>

type_synonym ull = "64 word"

definition int_ok :: "int \<Rightarrow> bool" where
  "int_ok i = (- 2147483648 \<le> i \<and> i \<le> 2147483647)"

text \<open>\<open>static_cast<int>\<close> of a \<open>size_t\<close>: the value modulo \<open>2^32\<close>, read as two's complement.\<close>

definition int_of_size :: "nat \<Rightarrow> int" where
  "int_of_size n = (let m = int n mod 4294967296 in if m < 2147483648 then m else m - 4294967296)"

definition double_of_int :: "int \<Rightarrow> double" where
  "double_of_int i = round_double (of_int i)"

definition double_of_ull :: "ull \<Rightarrow> double" where
  "double_of_ull w = round_double (of_int (uint w))"

definition trunc :: "real \<Rightarrow> int" where
  "trunc v = (if 0 \<le> v then \<lfloor>v\<rfloor> else \<lceil>v\<rceil>)"

text \<open>
  \<open>static_cast<int>\<close> of a double drops the fractional part. The conversion is undefined
  (\<open>None\<close>) when the truncated value does not fit an \<open>int\<close>, so for every NaN and infinity.
\<close>

definition double_to_int :: "double \<Rightarrow> int option" where
  "double_to_int d =
     (case d of Fin v \<Rightarrow> (if int_ok (trunc v) then Some (trunc v) else None) | _ \<Rightarrow> None)"

subsection \<open>Exceptions, strings and the standard conversions\<close>

datatype exn = Invalid_argument | Out_of_range

definition bind_exn :: "exn + 'a \<Rightarrow> ('a \<Rightarrow> exn + 'b) \<Rightarrow> exn + 'b" where
  "bind_exn r f = (case r of Inl e \<Rightarrow> Inl e | Inr v \<Rightarrow> f v)"

definition newline :: char where
  "newline = CHR 0x0A"

definition isspace :: "char \<Rightarrow> bool" where
  "isspace c = (c \<in> {CHR '' '', CHR 0x09, CHR 0x0A, CHR 0x0B, CHR 0x0C, CHR 0x0D})"

definition isdigit :: "char \<Rightarrow> bool" where
  "isdigit c = (c \<in> set ''0123456789'')"

definition digits_value :: "string \<Rightarrow> nat" where
  "digits_value ds = foldl (\<lambda>a c. 10 * a + (of_char c - 48)) 0 ds"

text \<open>
  The subject sequence of \<open>strtol\<close> and \<open>strtoull\<close> in base 10: white space is skipped, one
  sign is accepted, and the longest run of decimal digits that follows is the number.
  Whatever comes after the digits is ignored.
\<close>

definition scan_int :: "string \<Rightarrow> bool \<times> string" where
  "scan_int s =
     (let s1 = dropWhile isspace s;
          neg = (s1 \<noteq> [] \<and> hd s1 = CHR ''-'');
          s2 = (if s1 \<noteq> [] \<and> (hd s1 = CHR ''-'' \<or> hd s1 = CHR ''+'') then tl s1 else s1)
      in (neg, takeWhile isdigit s2))"

text \<open>
  \<open>std::stoull\<close>: \<open>invalid_argument\<close> when there is no digit to convert, \<open>out_of_range\<close>
  when the digits exceed \<open>2^64 - 1\<close>; a minus sign negates the value in 64-bit arithmetic.
\<close>

definition stoull :: "string \<Rightarrow> exn + ull" where
  "stoull s =
     (let (neg, ds) = scan_int s; v = digits_value ds
      in if ds = [] then Inl Invalid_argument
         else if 18446744073709551616 \<le> v then Inl Out_of_range
         else Inr (if neg then - word_of_nat v else word_of_nat v))"

text \<open>\<open>std::stoi\<close>: as above, with the result checked against the range of \<open>int\<close>.\<close>

definition stoi :: "string \<Rightarrow> exn + int" where
  "stoi s =
     (let (neg, ds) = scan_int s; v = (if neg then - int (digits_value ds) else int (digits_value ds))
      in if ds = [] then Inl Invalid_argument
         else if \<not> int_ok v then Inl Out_of_range
         else Inr v)"

definition digit_char :: "nat \<Rightarrow> char" where
  "digit_char n = ''0123456789'' ! n"

text \<open>\<open>std::to_string\<close> of an unsigned integer: its decimal digits.\<close>

fun to_string :: "nat \<Rightarrow> string" where
  "to_string n = (if n < 10 then [digit_char n] else to_string (n div 10) @ [digit_char (n mod 10)])"

declare to_string.simps [simp del]

subsection \<open>The conversion std::stod\<close>

text \<open>
  \<open>std::stod\<close> calls \<open>strtod\<close>. After white space and one sign, the subject sequence is
  \<open>inf\<close> or \<open>nan\<close> in either case of letters; or \<open>0x\<close> and hexadecimal digits that may
  hold a point, with an optional binary exponent \<open>p\<close>; or decimal digits that may hold a
  point, with an optional exponent \<open>e\<close>. There must be a digit, and an exponent counts
  only when a digit follows its letter and sign. What comes after is ignored.
\<close>

definition split_sign :: "string \<Rightarrow> bool \<times> string" where
  "split_sign s =
     (if s \<noteq> [] \<and> hd s = CHR ''-'' then (True, tl s)
      else if s \<noteq> [] \<and> hd s = CHR ''+'' then (False, tl s)
      else (False, s))"

text \<open>\<open>starts_ci alts s\<close>: the first characters of \<open>s\<close> are taken from the strings \<open>alts\<close>, in order.\<close>

definition starts_ci :: "string list \<Rightarrow> string \<Rightarrow> bool" where
  "starts_ci alts s = list_all2 (\<lambda>c alt. c \<in> set alt) (take (length alts) s) alts"

definition isxdigit :: "char \<Rightarrow> bool" where
  "isxdigit c = (c \<in> set ''0123456789abcdefABCDEF'')"

definition xdigit_value :: "char \<Rightarrow> nat" where
  "xdigit_value c =
     (if isdigit c then of_char c - 48
      else if c \<in> set ''abcdef'' then of_char c - 87
      else of_char c - 55)"

definition xdigits_value :: "string \<Rightarrow> nat" where
  "xdigits_value ds = foldl (\<lambda>a c. 16 * a + xdigit_value c) 0 ds"

definition pow10 :: "int \<Rightarrow> real" where
  "pow10 e = (if 0 \<le> e then 10 ^ nat e else 1 / 10 ^ nat (- e))"

text \<open>The digits before the point, the digits after it, and what follows them.\<close>

definition scan_mantissa :: "(char \<Rightarrow> bool) \<Rightarrow> string \<Rightarrow> string \<times> string \<times> string" where
  "scan_mantissa digit s =
     (let ip = takeWhile digit s; r = dropWhile digit s
      in if r \<noteq> [] \<and> hd r = CHR ''.''
         then (ip, takeWhile digit (tl r), dropWhile digit (tl r))
         else (ip, [], r))"

text \<open>The value of the exponent part that \<open>s\<close> starts with, 0 when it starts with none.\<close>

definition scan_exponent :: "string \<Rightarrow> string \<Rightarrow> int" where
  "scan_exponent letters s =
     (if s \<noteq> [] \<and> hd s \<in> set letters
      then (let (neg, r) = split_sign (tl s); ds = takeWhile isdigit r
            in if ds = [] then 0
               else if neg then - int (digits_value ds) else int (digits_value ds))
      else 0)"

text \<open>
  The exact value of the hexadecimal or decimal subject sequence of \<open>s\<close>, or \<open>None\<close> when
  \<open>s\<close> starts with neither. \<open>0x\<close> without a hexadecimal digit is the decimal \<open>0\<close>.
\<close>

definition scan_float :: "string \<Rightarrow> real option" where
  "scan_float s =
     (let (hi, hf, hr) = scan_mantissa isxdigit (drop 2 s);
          (di, df, dr) = scan_mantissa isdigit s
      in if (take 2 s = ''0x'' \<or> take 2 s = ''0X'') \<and> hi @ hf \<noteq> []
         then Some (real (xdigits_value (hi @ hf)) / 16 ^ length hf * pow2 (scan_exponent ''pP'' hr))
         else if di @ df \<noteq> []
         then Some (real (digits_value (di @ df))
                    * pow10 (scan_exponent ''eE'' dr - int (length df)))
         else None)"

text \<open>
  \<open>std::stod\<close> throws \<open>invalid_argument\<close> when there is no subject sequence, and
  \<open>out_of_range\<close> when \<open>strtod\<close> reports \<open>ERANGE\<close>. It reports that for a value that
  rounds to an infinity. For a value that is not zero and below the normal range the C
  standard leaves the report to the implementation: \<open>underflow_erange\<close> is that choice.
  The value is rounded to the nearest double, as glibc does.
\<close>

definition stod :: "(real \<Rightarrow> bool) \<Rightarrow> string \<Rightarrow> exn + double" where
  "stod underflow_erange s =
     (let (neg, r) = split_sign (dropWhile isspace s)
      in if starts_ci [''iI'', ''nN'', ''fF''] r then Inr (signed_inf (\<not> neg))
         else if starts_ci [''nN'', ''aA'', ''nN''] r then Inr NaN
         else case scan_float r of
                None \<Rightarrow> Inl Invalid_argument
              | Some x \<Rightarrow>
                  (let v = (if neg then - x else x)
                   in case round_double v of
                        Fin y \<Rightarrow>
                          if v \<noteq> 0 \<and> \<bar>v\<bar> < pow2 (- 1022) \<and> underflow_erange v
                          then Inl Out_of_range
                          else Inr (Fin y)
                      | _ \<Rightarrow> Inl Out_of_range))"

subsection \<open>Reading a telemetry file\<close>

text \<open>
  The file system maps a path to the bytes that a stream opened on it delivers, and
  to \<open>None\<close> when the path cannot be opened for reading (the file is absent, or access
  is denied). A stream whose read fails delivers no bytes, as an empty file does.
  \<open>getline\<close> returns the bytes before the first newline, or all of them.
\<close>

type_synonym fs = "string \<Rightarrow> string option"

definition getline :: "string \<Rightarrow> string" where
  "getline bytes = takeWhile (\<lambda>c. c \<noteq> newline) bytes"

definition read_file :: "fs \<Rightarrow> string \<Rightarrow> string \<Rightarrow> string" where
  "read_file files dir path =
     (case files (dir @ path) of
        None \<Rightarrow> ''0''
      | Some bytes \<Rightarrow> getline bytes)"

subsection \<open>The class device\<close>

record device =
  m_path :: string
  m_vram_str :: string
  m_gtt_str :: string
  m_vis_vram_str :: string
  m_vram :: ull
  m_gtt :: ull
  m_vis_vram :: ull
  m_power_min :: ull
  m_power_max :: ull
  m_temp_crit :: ull
  m_fan_min :: ull
  m_fan_max :: ull

definition mib_str :: "ull \<Rightarrow> string" where
  "mib_str bytes = CHR ''/'' # to_string (unat (bytes div (1024 * 1024))) @ ''MiB''"

text \<open>The constructor reads the calibration files once; each \<open>stoull\<close> may throw.\<close>

definition device_ctor :: "fs \<Rightarrow> string \<Rightarrow> exn + device" where
  "device_ctor files path =
     bind_exn (stoull (read_file files path ''mem_info_vram_total'')) (\<lambda>vram.
     bind_exn (stoull (read_file files path ''mem_info_gtt_total'')) (\<lambda>gtt.
     bind_exn (stoull (read_file files path ''mem_info_vis_vram_total'')) (\<lambda>vis_vram.
     bind_exn (stoull (read_file files path ''hwmon/hwmon1/power1_cap_min'')) (\<lambda>power_min.
     bind_exn (stoull (read_file files path ''hwmon/hwmon1/power1_cap_max'')) (\<lambda>power_max.
     bind_exn (stoull (read_file files path ''hwmon/hwmon1/temp1_crit'')) (\<lambda>temp_crit.
     bind_exn (stoull (read_file files path ''hwmon/hwmon1/fan1_min'')) (\<lambda>fan_min.
     bind_exn (stoull (read_file files path ''hwmon/hwmon1/fan1_max'')) (\<lambda>fan_max.
     Inr \<lparr> m_path = path,
           m_vram_str = mib_str vram,
           m_gtt_str = mib_str gtt,
           m_vis_vram_str = mib_str vis_vram,
           m_vram = vram,
           m_gtt = gtt,
           m_vis_vram = vis_vram,
           m_power_min = power_min,
           m_power_max = power_max,
           m_temp_crit = temp_crit,
           m_fan_min = fan_min,
           m_fan_max = fan_max \<rparr>))))))))"

text \<open>
  The fetches of the rows, in the order of the class. Those of \<open>busy\<close> and \<open>fan\<close> convert
  with \<open>std::stod\<close> and take the choice it leaves to the implementation as their first
  argument. The literal \<open>0.01\<close> is the double nearest to one hundredth.
\<close>

definition busy :: "(real \<Rightarrow> bool) \<Rightarrow> fs \<Rightarrow> device \<Rightarrow> exn + string \<times> double" where
  "busy underflow_erange files dev =
     (let pc = read_file files (m_path dev) ''gpu_busy_percent''
      in bind_exn (stod underflow_erange pc) (\<lambda>v.
           Inr (pc @ ''%'', dmul v (round_double (1 / 100)))))"

definition vram :: "fs \<Rightarrow> device \<Rightarrow> exn + string \<times> double" where
  "vram files dev =
     (let used = read_file files (m_path dev) ''mem_info_vram_used''
      in bind_exn (stoull used) (\<lambda>u.
           let pc = ddiv (double_of_ull u) (double_of_ull (m_vram dev));
               u' = u div (1024 * 1024)
           in Inr (to_string (unat u') @ m_vram_str dev, pc)))"

definition gtt :: "fs \<Rightarrow> device \<Rightarrow> exn + string \<times> double" where
  "gtt files dev =
     (let used = read_file files (m_path dev) ''mem_info_gtt_used''
      in bind_exn (stoull used) (\<lambda>u.
           let pc = ddiv (double_of_ull u) (double_of_ull (m_gtt dev));
               u' = u div (1024 * 1024)
           in Inr (to_string (unat u') @ m_gtt_str dev, pc)))"

definition vis_vram :: "fs \<Rightarrow> device \<Rightarrow> exn + string \<times> double" where
  "vis_vram files dev =
     (let used = read_file files (m_path dev) ''mem_info_vis_vram_used''
      in bind_exn (stoull used) (\<lambda>u.
           let pc = ddiv (double_of_ull u) (double_of_ull (m_vis_vram dev));
               u' = u div (1024 * 1024)
           in Inr (to_string (unat u') @ m_vis_vram_str dev, pc)))"

text \<open>\<open>p - m_power_min\<close> and \<open>m_power_max - m_power_min\<close> are 64-bit unsigned subtractions.\<close>

definition power_dev :: "fs \<Rightarrow> device \<Rightarrow> exn + string \<times> double" where
  "power_dev files dev =
     (let pwr = read_file files (m_path dev) ''hwmon/hwmon1/power1_average''
      in bind_exn (stoull pwr) (\<lambda>p.
           let range = double_of_ull (m_power_max dev - m_power_min dev);
               pc = ddiv (double_of_ull (p - m_power_min dev)) range
           in Inr (to_string (unat (p div 1000000)) @ ''W'', pc)))"

definition temperature :: "fs \<Rightarrow> device \<Rightarrow> exn + string \<times> double" where
  "temperature files dev =
     (let temp = read_file files (m_path dev) ''hwmon/hwmon1/temp1_input''
      in bind_exn (stoull temp) (\<lambda>t.
           let pc = ddiv (double_of_ull t) (double_of_ull (m_temp_crit dev))
           in Inr (to_string (unat (t div 1000)) @ ''C'', pc)))"

text \<open>The minimum of the fan is converted to a double before it is subtracted.\<close>

definition fan :: "(real \<Rightarrow> bool) \<Rightarrow> fs \<Rightarrow> device \<Rightarrow> exn + string \<times> double" where
  "fan underflow_erange files dev =
     (let f = read_file files (m_path dev) ''hwmon/hwmon1/fan1_input'';
          range = double_of_ull (m_fan_max dev - m_fan_min dev)
      in bind_exn (stod underflow_erange f) (\<lambda>v.
           let pc = ddiv (dsub v (double_of_ull (m_fan_min dev))) range
           in Inr (f @ ''RPM'', pc)))"

definition voltage :: "fs \<Rightarrow> device \<Rightarrow> string" where
  "voltage files dev = read_file files (m_path dev) ''hwmon/hwmon1/in0_input'' @ ''mV''"

definition gfx_clock :: "fs \<Rightarrow> device \<Rightarrow> exn + string" where
  "gfx_clock files dev =
     (let freq = read_file files (m_path dev) ''hwmon/hwmon1/freq1_input''
      in bind_exn (stoull freq) (\<lambda>f. Inr (to_string (unat (f div 1000000)) @ ''MHz'')))"

definition mem_clock :: "fs \<Rightarrow> device \<Rightarrow> exn + string" where
  "mem_clock files dev =
     (let freq = read_file files (m_path dev) ''hwmon/hwmon1/freq2_input''
      in bind_exn (stoull freq) (\<lambda>f. Inr (to_string (unat (f div 1000000)) @ ''MHz'')))"

definition link_speed :: "fs \<Rightarrow> device \<Rightarrow> string" where
  "link_speed files dev = read_file files (m_path dev) ''current_link_speed''"

definition link_width :: "fs \<Rightarrow> device \<Rightarrow> string" where
  "link_width files dev = CHR ''x'' # read_file files (m_path dev) ''current_link_width''"

subsection \<open>Drawing a bar\<close>

datatype color_type = Label | Value | Ok | Warn | Bad

datatype attr = A_NORMAL | A_BOLD | COLOR_PAIR color_type

datatype curses_call =
  Move int int
| Clrtoeol
| Attron attr
| Attroff attr
| Addch char
| Addstr string

definition set_color :: "bool \<Rightarrow> color_type \<Rightarrow> curses_call list" where
  "set_color use_color color = (if use_color then [Attron (COLOR_PAIR color)] else [])"

definition remove_color :: "bool \<Rightarrow> color_type \<Rightarrow> curses_call list" where
  "remove_color use_color color = (if use_color then [Attroff (COLOR_PAIR color)] else [])"

definition print_string :: "bool \<Rightarrow> color_type \<Rightarrow> string \<Rightarrow> attr \<Rightarrow> curses_call list" where
  "print_string use_color color str a =
     [Attron a] @ set_color use_color color @ [Addstr str] @ remove_color use_color color @ [Attroff a]"

text \<open>The literals \<open>0.33\<close> and \<open>0.67\<close> are the doubles nearest to these decimals.\<close>

definition bar_color :: "double \<Rightarrow> color_type" where
  "bar_color pc =
     (if dlt pc (round_double (33 / 100)) then Ok
      else if dlt pc (round_double (67 / 100)) then Warn
      else Bad)"

text \<open>
  The outcome of a call of \<open>draw_bar\<close>: the curses calls it made, in order, or undefined
  behaviour (a signed overflow, or a conversion of a double that fits no \<open>int\<close>).
\<close>

datatype outcome = Returned "curses_call list" | Undefined

definition draw_bar :: "bool \<Rightarrow> int \<Rightarrow> int \<Rightarrow> int \<Rightarrow> double \<Rightarrow> string \<Rightarrow> outcome" where
  "draw_bar use_color row col width pc str =
     (let pc' = std_clamp pc (Fin 0) (Fin 1);
          reserved = 2 + int_of_size (length str);
          width' = width - reserved
      in if \<not> (int_ok reserved \<and> int_ok width') then Undefined
         else case double_to_int (dmul (double_of_int width') pc') of
           None \<Rightarrow> Undefined
         | Some bars \<Rightarrow>
             if bars < 0 then Returned [Move row col, Clrtoeol]
             else if \<not> (int_ok (col + width') \<and> int_ok (col + width' + 1)) then Undefined
             else Returned
               ([Move row col, Clrtoeol, Attron A_BOLD, Addch CHR ''['', Attroff A_BOLD]
                @ print_string use_color (bar_color pc') (replicate (nat bars) CHR ''|'') A_NORMAL
                @ [Move row (col + width' + 1), Attron A_BOLD]
                @ print_string use_color Value str A_NORMAL
                @ [Addch CHR '']'', Attroff A_BOLD]))"

subsection \<open>The rows and the option \<open>--disable\<close>\<close>

text \<open>The enumeration \<open>info\<close>: twelve rows numbered from 0, and \<open>row_count\<close> after them.\<close>

definition row_count :: nat where
  "row_count = 12"

definition info_map :: "(string \<times> nat) list" where
  "info_map =
     [(''busy'', 0), (''vram'', 1), (''gtt'', 2), (''cpu_vis'', 3), (''power'', 4),
      (''temperature'', 5), (''fan'', 6), (''voltage'', 7), (''gfx_clock'', 8),
      (''mem_clock'', 9), (''link_speed'', 10), (''link_width'', 11)]"

definition disable_option :: "bool list \<Rightarrow> string \<Rightarrow> bool list" where
  "disable_option enabled_rows opt =
     (case map_of info_map opt of
        Some i \<Rightarrow> enabled_rows[i := False]
      | None \<Rightarrow> enabled_rows)"

text \<open>
  \<open>string_view::find(c, pos)\<close>: the first index from \<open>pos\<close> on that holds \<open>c\<close>, or \<open>npos\<close>
  (\<open>None\<close>). \<open>substr s pos n\<close> is \<open>s.substr(pos, n)\<close> for \<open>pos\<close> up to the size of \<open>s\<close>, the
  only positions \<open>disable_options\<close> reaches.
\<close>

definition find_char :: "string \<Rightarrow> char \<Rightarrow> nat \<Rightarrow> nat option" where
  "find_char s c pos =
     (let rest = drop pos s; skipped = takeWhile (\<lambda>x. x \<noteq> c) rest
      in if length skipped < length rest then Some (pos + length skipped) else None)"

definition substr :: "string \<Rightarrow> nat \<Rightarrow> nat \<Rightarrow> string" where
  "substr s pos n = take n (drop pos s)"

text \<open>The loop of \<open>disable_options\<close>, from the state in which \<open>prev_idx\<close> has the given value.\<close>

function disable_from :: "bool list \<Rightarrow> string \<Rightarrow> nat \<Rightarrow> bool list" where
  "disable_from enabled_rows options prev_idx =
     (case find_char options CHR '','' prev_idx of
        Some idx \<Rightarrow>
          disable_from (disable_option enabled_rows (substr options prev_idx (idx - prev_idx)))
            options (idx + 1)
      | None \<Rightarrow> disable_option enabled_rows (drop prev_idx options))"
  by pat_completeness auto
termination
  by (relation "measure (\<lambda>(enabled_rows, options, prev_idx). length options - prev_idx)")
    (auto simp: find_char_def Let_def split: if_splits)

declare disable_from.simps [simp del]

definition disable_options :: "bool list \<Rightarrow> string \<Rightarrow> bool list" where
  "disable_options enabled_rows options = disable_from enabled_rows options 0"

subsection \<open>The start of main\<close>

definition EXIT_SUCCESS :: int where
  "EXIT_SUCCESS = 0"

definition EXIT_FAILURE :: int where
  "EXIT_FAILURE = 1"

definition print_help :: "string \<Rightarrow> string" where
  "print_help progName =
     ''Usage: '' @ progName @ '' [options]'' @ [newline]
     @ ''Released under the GNU GPLv3'' @ [newline, newline]
     @ ''  -n, --no-color      disable colors'' @ [newline]
     @ ''  -u, --update=N      set automatic updates to N seconds (default 2)'' @ [newline]
     @ ''  -h, --help          display this message'' @ [newline]
     @ ''  -d, --disable=ROWS  disable each row corresponding to the comma'' @ [newline]
     @ ''                      separated list ROWS. Valid options are busy,'' @ [newline]
     @ ''                      vram, gtt, cpu_vis, power, temperature, fan,'' @ [newline]
     @ ''                      voltage, gfx_clock, mem_clock, link_speed and'' @ [newline]
     @ ''                      link_width. Other values are silently ignored.'' @ [newline]"

record run_config =
  cfg_sleep_time :: int
  cfg_use_color :: bool
  cfg_enabled_rows :: "bool list"

text \<open>
  How \<open>main\<close> goes on after its options: it returns an exit status, having written some
  text to standard output; or an exception leaves it; or it installs the signal
  handlers, calls \<open>initscr\<close> and enters the render loop with the configuration it built.
\<close>

datatype startup = Exit int string | Uncaught exn | Render_loop run_config

text \<open>
  The loop over \<open>getopt_long\<close>, given the options it reports in order: the option
  character (\<open>?\<close> for one it rejects) and its argument.
\<close>

fun option_loop :: "string \<Rightarrow> run_config \<Rightarrow> (char \<times> string) list \<Rightarrow> startup + run_config" where
  "option_loop argv0 cfg [] = Inr cfg"
| "option_loop argv0 cfg ((c, optarg) # rest) =
     (if c = CHR ''h'' then Inl (Exit EXIT_SUCCESS (print_help argv0))
      else if c = CHR ''n'' then option_loop argv0 (cfg\<lparr>cfg_use_color := False\<rparr>) rest
      else if c = CHR ''u'' then
        (case stoi optarg of
           Inl e \<Rightarrow> Inl (Uncaught e)
         | Inr n \<Rightarrow> option_loop argv0 (cfg\<lparr>cfg_sleep_time := n\<rparr>) rest)
      else if c = CHR ''d'' then
        option_loop argv0
          (cfg\<lparr>cfg_enabled_rows := disable_options (cfg_enabled_rows cfg) optarg\<rparr>) rest
      else Inl (Exit EXIT_FAILURE []))"

definition all_disabled :: "bool list \<Rightarrow> bool" where
  "all_disabled enabled_rows = list_all (\<lambda>b. \<not> b) enabled_rows"

text \<open>The locals and globals of \<open>main\<close> before the first option is read.\<close>

definition initial_config :: run_config where
  "initial_config =
     \<lparr>cfg_sleep_time = 2, cfg_use_color = True, cfg_enabled_rows = replicate row_count True\<rparr>"

definition main :: "string \<Rightarrow> (char \<times> string) list \<Rightarrow> startup" where
  "main argv0 opts =
     (case option_loop argv0 initial_config opts of
        Inl early \<Rightarrow> early
      | Inr cfg \<Rightarrow>
          if all_disabled (cfg_enabled_rows cfg)
          then Exit EXIT_SUCCESS (''All rows disabled. Exiting.'' @ [newline])
          else Render_loop cfg)"

subsection \<open>The render loop\<close>

definition vpad :: int where
  "vpad = 1"

definition hpad :: int where
  "hpad = 2"

definition text_len :: int where
  "text_len = 13 + hpad"

definition end_of_transmission :: int where
  "end_of_transmission = 4"

definition escape :: int where
  "escape = 27"

text \<open>
  A step of the loop body goes on with a value, or an exception leaves it, or its
  behaviour is undefined. Nothing in \<open>main\<close> catches an exception.
\<close>

datatype 'a step = Next 'a | Thrown exn | Undef

definition then_step :: "'a step \<Rightarrow> ('a \<Rightarrow> 'b step) \<Rightarrow> 'b step" where
  "then_step s f = (case s of Next x \<Rightarrow> f x | Thrown e \<Rightarrow> Thrown e | Undef \<Rightarrow> Undef)"

text \<open>
  One \<open>if (enabled_rows[...])\<close> block of the loop body, from the row counter and the calls
  made so far: a bar row fetches its pair and draws it in the next row, a text row
  clears the next row and prints what it fetched. A disabled row does nothing.
\<close>

definition bar_row ::
  "bool \<Rightarrow> bool \<Rightarrow> int \<Rightarrow> exn + string \<times> double \<Rightarrow> int \<times> curses_call list
     \<Rightarrow> (int \<times> curses_call list) step" where
  "bar_row enabled use_color bar_width fetch st =
     (if \<not> enabled then Next st
      else case fetch of
             Inl e \<Rightarrow> Thrown e
           | Inr (str, pc) \<Rightarrow>
               (case draw_bar use_color (fst st + 1) text_len bar_width pc str of
                  Undefined \<Rightarrow> Undef
                | Returned calls \<Rightarrow> Next (fst st + 1, snd st @ calls)))"

definition text_row ::
  "bool \<Rightarrow> bool \<Rightarrow> exn + string \<Rightarrow> int \<times> curses_call list
     \<Rightarrow> (int \<times> curses_call list) step" where
  "text_row enabled use_color fetch st =
     (if \<not> enabled then Next st
      else case fetch of
             Inl e \<Rightarrow> Thrown e
           | Inr str \<Rightarrow>
               Next (fst st + 1,
                     snd st @ [Move (fst st + 1) text_len, Clrtoeol]
                     @ print_string use_color Label str A_BOLD))"

text \<open>
  The body of the loop between the test of \<open>should_resize\<close> and \<open>refresh\<close>, for the value
  \<open>cols\<close> of \<open>COLS\<close>: the calls of the frame it draws. \<open>cfg_use_color\<close> is the flag
  as the loop finds it. The registry of \<open>main\<close> has twelve entries.
\<close>

definition tick :: "(real \<Rightarrow> bool) \<Rightarrow> run_config \<Rightarrow> int \<Rightarrow> fs \<Rightarrow> device \<Rightarrow> curses_call list step" where
  "tick underflow_erange cfg cols files dev =
     (let enabled_rows = cfg_enabled_rows cfg;
          use_color = cfg_use_color cfg;
          bar_width = cols - text_len - hpad
      in if \<not> (int_ok (cols - text_len) \<and> int_ok bar_width) then Undef
         else
           then_step (bar_row (enabled_rows ! 0) use_color bar_width
                        (busy underflow_erange files dev) (vpad - 1, [])) (\<lambda>st.
           then_step (bar_row (enabled_rows ! 1) use_color bar_width (vram files dev) st) (\<lambda>st.
           then_step (bar_row (enabled_rows ! 2) use_color bar_width (gtt files dev) st) (\<lambda>st.
           then_step (bar_row (enabled_rows ! 3) use_color bar_width (vis_vram files dev) st) (\<lambda>st.
           then_step (bar_row (enabled_rows ! 4) use_color bar_width (power_dev files dev) st) (\<lambda>st.
           then_step (bar_row (enabled_rows ! 5) use_color bar_width (temperature files dev) st) (\<lambda>st.
           then_step (bar_row (enabled_rows ! 6) use_color bar_width
                        (fan underflow_erange files dev) st) (\<lambda>st.
           then_step (text_row (enabled_rows ! 7) use_color (Inr (voltage files dev)) st) (\<lambda>st.
           then_step (text_row (enabled_rows ! 8) use_color (gfx_clock files dev) st) (\<lambda>st.
           then_step (text_row (enabled_rows ! 9) use_color (mem_clock files dev) st) (\<lambda>st.
           then_step (text_row (enabled_rows ! 10) use_color (Inr (link_speed files dev)) st) (\<lambda>st.
           then_step (text_row (enabled_rows ! 11) use_color (Inr (link_width files dev)) st) (\<lambda>st.
           Next (snd st))))))))))))))"

text \<open>
  What one iteration of the loop finds: the flag \<open>should_close\<close> at the loop test, the
  width of the terminal, the telemetry files, and the key that \<open>getch\<close> returns.
\<close>

record iteration =
  it_should_close :: bool
  it_cols :: int
  it_files :: fs
  it_key :: int

text \<open>
  How the process ends: \<open>main\<close> returns a status after \<open>endwin\<close>; or an exception leaves
  \<open>main\<close> and \<open>std::terminate\<close> ends the process; or the behaviour is undefined; or the
  loop is still running when the given iterations are used up. \<open>handle_winch\<close>, \<open>refresh\<close>
  and \<open>getch\<close> make curses calls only and throw nothing; of them the loop below keeps the
  key that was read.
\<close>

datatype process_end = Main_returned int | Terminated exn | Undefined_run | Still_running

fun render_loop ::
  "(real \<Rightarrow> bool) \<Rightarrow> run_config \<Rightarrow> device \<Rightarrow> iteration list \<Rightarrow> process_end" where
  "render_loop underflow_erange cfg dev [] = Still_running"
| "render_loop underflow_erange cfg dev (it # its) =
     (if it_should_close it then Main_returned EXIT_SUCCESS
      else case tick underflow_erange cfg (it_cols it) (it_files it) dev of
             Thrown e \<Rightarrow> Terminated e
           | Undef \<Rightarrow> Undefined_run
           | Next frame \<Rightarrow>
               if it_key it = 113 \<or> it_key it = end_of_transmission \<or> it_key it = escape
               then Main_returned EXIT_SUCCESS
               else render_loop underflow_erange cfg dev its)"

subsection \<open>Example inputs\<close>

text \<open>
  A device directory without any telemetry file. A directory whose counter of used video
  memory opens, while every read of it fails and delivers nothing. A directory that
  holds nothing but the counter of used video memory, whose first line is empty; and
  the same directory with a counter of 512 MiB.
\<close>

definition files_none :: fs where
  "files_none = (\<lambda>path. None)"

definition files_unreadable :: fs where
  "files_unreadable = [''/d/mem_info_vram_used'' \<mapsto> []]"

definition files_blank_line :: fs where
  "files_blank_line = [''/d/mem_info_vram_used'' \<mapsto> newline # ''42'']"

definition files_used_only :: fs where
  "files_used_only = [''/d/mem_info_vram_used'' \<mapsto> ''536870912'' @ [newline]]"

text \<open>The device that the constructor builds when every calibration file is missing.\<close>

definition dev_uncalibrated :: device where
  "dev_uncalibrated =
     \<lparr> m_path = ''/d/'', m_vram_str = ''/0MiB'', m_gtt_str = ''/0MiB'',
       m_vis_vram_str = ''/0MiB'', m_vram = 0, m_gtt = 0, m_vis_vram = 0, m_power_min = 0,
       m_power_max = 0, m_temp_crit = 0, m_fan_min = 0, m_fan_max = 0 \<rparr>"

definition all_names :: string where
  "all_names = ''busy,vram,gtt,cpu_vis,power,temperature,fan,voltage,gfx_clock,mem_clock,link_speed,link_width''"

text \<open>
  A device with 1 GiB of video memory, and a counter whose first line goes on after
  the number. A device with a power cap between 183 W and 255 W that draws 30 W, and
  one with caps of 0 W and 100 W that draws 33 W.
\<close>

definition dev_1gib :: device where
  "dev_1gib = dev_uncalibrated \<lparr> m_vram_str := ''/1024MiB'', m_vram := 1073741824 \<rparr>"

definition files_trailing_text :: fs where
  "files_trailing_text = [''/d/mem_info_vram_used'' \<mapsto> ''536870912 bytes'' @ [newline]]"

definition dev_power_caps :: device where
  "dev_power_caps = dev_uncalibrated \<lparr> m_power_min := 183000000, m_power_max := 255000000 \<rparr>"

definition files_idle_power :: fs where
  "files_idle_power = [''/d/hwmon/hwmon1/power1_average'' \<mapsto> ''30000000'' @ [newline]]"

definition dev_power_100w :: device where
  "dev_power_100w = dev_uncalibrated \<lparr> m_power_max := 100000000 \<rparr>"

definition files_power_33w :: fs where
  "files_power_33w = [''/d/hwmon/hwmon1/power1_average'' \<mapsto> ''33000000'' @ [newline]]"

text \<open>
  An implementation of \<open>strtod\<close> that reports every underflow. A busy counter that holds
  text, and one that holds 37. One iteration of the loop on a terminal of 80 columns,
  not closing, in which the user presses \<open>q\<close>. The configuration after \<open>--disable=busy\<close>.
\<close>

definition erange_always :: "real \<Rightarrow> bool" where
  "erange_always v = True"

definition files_busy_text :: fs where
  "files_busy_text = [''/d/gpu_busy_percent'' \<mapsto> ''n/a'' @ [newline]]"

definition files_busy_37 :: fs where
  "files_busy_37 = [''/d/gpu_busy_percent'' \<mapsto> ''37'' @ [newline]]"

definition one_tick :: "fs \<Rightarrow> iteration" where
  "one_tick files = \<lparr>it_should_close = False, it_cols = 80, it_files = files, it_key = 113\<rparr>"

definition cfg_no_busy :: run_config where
  "cfg_no_busy = initial_config\<lparr>cfg_enabled_rows := disable_options (replicate row_count True) ''busy''\<rparr>"

section \<open>Properties\<close>

subsection \<open>Evaluation of the conversions\<close>

lemmas stoull_eval = stoull_def scan_int_def isspace_def isdigit_def digits_value_def

lemma stoull_0: "stoull ''0'' = Inr 0"
  by (simp add: stoull_eval)

lemma stoull_empty: "stoull [] = Inl Invalid_argument"
  by (simp add: stoull_def scan_int_def)


lemma fresh_rows:
  "replicate row_count True =
     [True, True, True, True, True, True, True, True, True, True, True, True]"
  by (simp add: row_count_def eval_nat_numeral)

lemmas disable_eval = disable_options_def disable_from.simps find_char_def substr_def
  disable_option_def info_map_def fresh_rows

lemma disable_option_unknown:
  "opt \<notin> fst ` set info_map \<Longrightarrow> disable_option enabled_rows opt = enabled_rows"
  by (simp add: disable_option_def map_of_eq_None_iff [THEN iffD2])

lemma all_disabled_iff:
  "all_disabled enabled_rows \<longleftrightarrow> (\<forall>i<length enabled_rows. \<not> enabled_rows ! i)"
  by (simp add: all_disabled_def list_all_length)

text \<open>The option loop ends \<open>main\<close> early only by a return or an exception.\<close>

lemma option_loop_early: "option_loop argv0 cfg opts \<noteq> Inl (Render_loop cfg')"
  by (induction argv0 cfg opts rule: option_loop.induct) (auto split: sum.splits)

subsection \<open>Missing and empty telemetry files\<close>

text \<open>
  C6, amended. When the telemetry file is absent or cannot be opened for reading,
  \<open>read_file\<close> returns the string \<open>0\<close>. It has no exceptional result, and the
  conversion of what it returned succeeds with 0.
\<close>

theorem read_file_missing:
  "files (dir @ path) = None \<Longrightarrow>
     read_file files dir path = ''0'' \<and> stoull (read_file files dir path) = Inr 0"
  by (simp add: read_file_def stoull_0)

theorem read_file_missing_witness:
  "files_used_only (''/d/'' @ ''mem_info_vram_total'') = None
   \<and> read_file files_used_only ''/d/'' ''mem_info_vram_total'' = ''0''
   \<and> stoull (read_file files_used_only ''/d/'' ''mem_info_vram_total'') = Inr 0"
proof -
  have missing: "files_used_only (''/d/'' @ ''mem_info_vram_total'') = None"
    by (simp add: files_used_only_def)
  from read_file_missing [of files_used_only "''/d/''" "''mem_info_vram_total''", OF missing]
    missing show ?thesis
    by blast
qed

text \<open>
  The only test of \<open>read_file\<close> is \<open>is_open\<close>. A file that opens and cannot be read (a read
  error, a directory) is unreadable too, yet \<open>getline\<close> then leaves the empty string, not
  \<open>0\<close>, and the fetch of the metric throws.
\<close>

theorem unreadable_file_counterexample:
  "files_unreadable (''/d/'' @ ''mem_info_vram_used'') = Some []
   \<and> read_file files_unreadable ''/d/'' ''mem_info_vram_used'' = []
   \<and> vram files_unreadable dev_uncalibrated = Inl Invalid_argument"
  by (simp add: files_unreadable_def read_file_def getline_def vram_def dev_uncalibrated_def
      stoull_empty bind_exn_def)



subsection \<open>Disabling rows\<close>

text \<open>
  C8. On the fresh registry of twelve enabled rows, \<open>disable_options\<close> with \<open>busy,fan\<close>
  switches off rows 0 (busy) and 6 (fan) and no other, which leaves ten rows enabled.
  A token that is not one of the twelve names changes nothing.
\<close>

theorem disable_busy_fan:
  "disable_options (replicate row_count True) ''busy,fan'' =
     [False, True, True, True, True, True, False, True, True, True, True, True]
   \<and> length (filter (\<lambda>b. b) (disable_options (replicate row_count True) ''busy,fan'')) = 10
   \<and> (opt \<notin> fst ` set info_map \<longrightarrow> disable_option enabled_rows opt = enabled_rows)
   \<and> disable_options (replicate row_count True) ''busy,bogus,fan'' =
       disable_options (replicate row_count True) ''busy,fan''"
  by (simp add: disable_eval disable_option_unknown)

theorem disable_busy_fan_witness:
  "''bogus'' \<notin> fst ` set info_map
   \<and> disable_option [True, False] ''bogus'' = [True, False]"
  using disable_busy_fan [of "''bogus''" "[True, False]"]
  by (simp add: info_map_def)

text \<open>
  C9. \<open>all_disabled\<close> holds exactly when every flag is false. When it holds after the
  options are processed, \<open>main\<close> writes one line and returns \<open>EXIT_SUCCESS\<close>; it reaches
  \<open>initscr\<close> and the render loop only with some row enabled.
\<close>

theorem all_rows_disabled_exits:
  "(all_disabled enabled_rows \<longleftrightarrow> (\<forall>i<length enabled_rows. \<not> enabled_rows ! i))
   \<and> (option_loop argv0 initial_config opts = Inr cfg \<and> all_disabled (cfg_enabled_rows cfg) \<longrightarrow>
        main argv0 opts = Exit EXIT_SUCCESS (''All rows disabled. Exiting.'' @ [newline]))
   \<and> (main argv0 opts = Render_loop cfg \<longrightarrow> \<not> all_disabled (cfg_enabled_rows cfg))"
  by (auto simp: all_disabled_iff main_def option_loop_early split: sum.splits if_splits)

theorem all_rows_disabled_exits_witness:
  "option_loop ''gpumon'' initial_config [(CHR ''d'', all_names)] =
     Inr (initial_config\<lparr>cfg_enabled_rows := replicate 12 False\<rparr>)
   \<and> all_disabled (cfg_enabled_rows (initial_config\<lparr>cfg_enabled_rows := replicate 12 False\<rparr>))
   \<and> main ''gpumon'' [(CHR ''d'', all_names)] =
       Exit EXIT_SUCCESS (''All rows disabled. Exiting.'' @ [newline])
   \<and> main ''gpumon'' [] = Render_loop initial_config
   \<and> \<not> all_disabled (cfg_enabled_rows initial_config)"
proof -
  have run: "option_loop ''gpumon'' initial_config [(CHR ''d'', all_names)] =
      Inr (initial_config\<lparr>cfg_enabled_rows := replicate 12 False\<rparr>)"
    by (simp add: initial_config_def all_names_def disable_eval eval_nat_numeral)
  have off: "all_disabled (cfg_enabled_rows (initial_config\<lparr>cfg_enabled_rows := replicate 12 False\<rparr>))"
    by (simp add: all_disabled_def list_all_length)
  have loop: "main ''gpumon'' [] = Render_loop initial_config"
    by (simp add: main_def all_disabled_def initial_config_def fresh_rows)
  from all_rows_disabled_exits
         [of "[]" "''gpumon''" "[(CHR ''d'', all_names)]"
             "initial_config\<lparr>cfg_enabled_rows := replicate 12 False\<rparr>"]
       all_rows_disabled_exits [of "[]" "''gpumon''" "[]" initial_config]
       run off loop
  show ?thesis
    by blast
qed

subsection \<open>Rounding to a double\<close>

text \<open>
  Rounding never crosses an integer below \<open>2^53\<close> in magnitude: such an integer is a
  multiple of the unit in the last place of every number between it and zero.
\<close>

lemma round_half_even_le: "y \<le> of_int n \<Longrightarrow> round_half_even y \<le> n"
proof -
  assume le: "y \<le> of_int n"
  show ?thesis
  proof (cases "y = of_int n")
    case True
    then show ?thesis by (simp add: round_half_even_def)
  next
    case False
    with le have "y < of_int n" by simp
    then have "\<lfloor>y\<rfloor> < n" by (simp add: floor_less_iff)
    then show ?thesis by (auto simp: round_half_even_def Let_def)
  qed
qed

lemma round_half_even_ge: "of_int n \<le> y \<Longrightarrow> n \<le> round_half_even y"
proof -
  assume "of_int n \<le> y"
  then have "n \<le> \<lfloor>y\<rfloor>" by (simp add: le_floor_iff)
  then show ?thesis by (auto simp: round_half_even_def Let_def)
qed

lemma pow2_nonpos: "e \<le> 0 \<Longrightarrow> pow2 e = 1 / 2 ^ nat (- e)"
  by (cases "e = 0") (simp_all add: pow2_def)

lemma ilog2_small: "x < 2 ^ 53 \<Longrightarrow> ilog2 x \<le> 52"
proof (cases "1 \<le> x")
  case True
  assume "x < 2 ^ 53"
  then have "\<lfloor>x\<rfloor> < 2 ^ nat 53" by (simp add: floor_less_iff)
  then have "bitlen \<lfloor>x\<rfloor> \<le> 53" by (simp add: bitlen_le_iff_power)
  with True show ?thesis by (simp add: ilog2_def)
next
  case False
  have "0 \<le> bitlen (\<lceil>1 / x\<rceil> - 1)" by (rule bitlen_nonneg)
  with False show ?thesis by (simp add: ilog2_def)
qed

lemma round_double_between:
  assumes lo: "of_int lo \<le> x" and hi: "x \<le> of_int hi"
    and lo_small: "- (2 ^ 53) < lo" and hi_small: "hi < 2 ^ 53"
  shows "\<exists>v. round_double x = Fin v \<and> of_int lo \<le> v \<and> v \<le> of_int hi"
proof (cases "x = 0")
  case True
  with lo hi show ?thesis by (simp add: round_double_def)
next
  case False
  define e where "e = max (ilog2 \<bar>x\<bar>) (- 1022) - 52"
  define k where "k = nat (- e)"
  define m where "m = round_half_even (x / pow2 e)"
  have "real_of_int lo > - (2 ^ 53)" using lo_small by (metis of_int_less_iff of_int_minus of_int_numeral of_int_power)
  moreover have "real_of_int hi < 2 ^ 53" using hi_small by (metis of_int_less_iff of_int_numeral of_int_power)
  ultimately have "\<bar>x\<bar> < 2 ^ 53" using lo hi by linarith
  then have "ilog2 \<bar>x\<bar> \<le> 52" by (rule ilog2_small)
  then have e: "e \<le> 0" by (simp add: e_def)
  then have p: "pow2 e = 1 / 2 ^ k" by (simp add: pow2_nonpos k_def)
  have scaled: "x / pow2 e = x * 2 ^ k" by (simp add: p)
  have "of_int (lo * 2 ^ k) \<le> x * 2 ^ k" using lo by simp
  then have m_lo: "lo * 2 ^ k \<le> m" unfolding m_def scaled by (rule round_half_even_ge)
  have "x * 2 ^ k \<le> of_int (hi * 2 ^ k)" using hi by simp
  then have m_hi: "m \<le> hi * 2 ^ k" unfolding m_def scaled by (rule round_half_even_le)
  define v where "v = of_int m * pow2 e"
  have v: "v = of_int m / 2 ^ k" by (simp add: v_def p)
  have "real_of_int (lo * 2 ^ k) \<le> of_int m" using m_lo by (simp only: of_int_le_iff)
  then have v_lo: "of_int lo \<le> v" by (simp add: v pos_le_divide_eq)
  have "real_of_int m \<le> of_int (hi * 2 ^ k)" using m_hi by (simp only: of_int_le_iff)
  then have v_hi: "v \<le> of_int hi" by (simp add: v pos_divide_le_eq)
  have "\<bar>v\<bar> < 2 ^ 53" using v_lo v_hi \<open>real_of_int lo > - (2 ^ 53)\<close> \<open>real_of_int hi < 2 ^ 53\<close> by linarith
  also have "(2::real) ^ 53 \<le> 2 ^ 1024" by (rule power_increasing) simp_all
  finally have "\<not> pow2 1024 \<le> \<bar>v\<bar>" by (simp add: pow2_def)
  then have "round_double x = Fin v"
    using False by (simp add: round_double_def Let_def v_def m_def e_def)
  with v_lo v_hi show ?thesis by blast
qed


text \<open>A number from 1 on never rounds to zero or below.\<close>

lemma pow2_pos: "0 < pow2 e"
  by (simp add: pow2_def)

lemma pow2_le_ilog2: "1 \<le> x \<Longrightarrow> 0 \<le> e \<Longrightarrow> e \<le> ilog2 x \<Longrightarrow> pow2 e \<le> x"
proof -
  assume x: "1 \<le> x" and e: "0 \<le> e" "e \<le> ilog2 x"
  have pos: "0 < \<lfloor>x\<rfloor>" using x by (simp add: less_floor_iff)
  from e x have "e \<le> bitlen \<lfloor>x\<rfloor> - 1" by (simp add: ilog2_def)
  then have "nat e \<le> nat (bitlen \<lfloor>x\<rfloor> - 1)" by simp
  then have "(2::int) ^ nat e \<le> 2 ^ nat (bitlen \<lfloor>x\<rfloor> - 1)" by (rule power_increasing) simp
  also have "\<dots> \<le> \<lfloor>x\<rfloor>" using bitlen_bounds [OF pos] by simp
  finally have "real_of_int (2 ^ nat e) \<le> of_int \<lfloor>x\<rfloor>" by (simp only: of_int_le_iff)
  also have "\<dots> \<le> x" by simp
  finally show ?thesis using e(1) by (simp add: pow2_def)
qed

lemma round_double_pos:
  assumes "1 \<le> x"
  shows "round_double x = PInf \<or> (\<exists>v. round_double x = Fin v \<and> 0 < v)"
proof -
  define e where "e = max (ilog2 \<bar>x\<bar>) (- 1022) - 52"
  define m where "m = round_half_even (x / pow2 e)"
  have ax: "\<bar>x\<bar> = x" using assms by simp
  have "pow2 e \<le> x"
  proof (cases "0 \<le> e")
    case True
    then have "e \<le> ilog2 x" by (simp add: e_def ax)
    with assms True show ?thesis by (rule pow2_le_ilog2)
  next
    case False
    then have "pow2 e \<le> 1" by (simp add: pow2_def)
    with assms show ?thesis by simp
  qed
  then have "of_int 1 \<le> x / pow2 e" using pow2_pos [of e] by (simp add: pos_le_divide_eq)
  then have "1 \<le> m" unfolding m_def by (rule round_half_even_ge)
  then have "0 < real_of_int m * pow2 e" using pow2_pos [of e] by simp 
  moreover have "round_double x =
      (if pow2 1024 \<le> \<bar>of_int m * pow2 e\<bar> then PInf else Fin (of_int m * pow2 e))"
    using assms by (simp add: round_double_def Let_def m_def e_def)
  ultimately show ?thesis by auto
qed

lemma round_double_int: "int_ok i \<Longrightarrow> round_double (of_int i) = Fin (of_int i)"
proof -
  assume "int_ok i"
  then have "- (2 ^ 53) < i" "i < 2 ^ 53" by (simp_all add: int_ok_def)
  from round_double_between [of i "of_int i" i, OF _ _ this]
  obtain v where "round_double (of_int i) = Fin v" "of_int i \<le> v" "v \<le> of_int i" by auto
  then show ?thesis by simp
qed

lemma std_clamp_unit:
  "pc \<noteq> NaN \<Longrightarrow> \<exists>c. std_clamp pc (Fin 0) (Fin 1) = Fin c \<and> 0 \<le> c \<and> c \<le> 1"
  by (cases pc) (auto simp: std_clamp_def)

lemma int_of_size_small: "n < 2147483648 \<Longrightarrow> int_of_size n = int n"
  by (simp add: int_of_size_def Let_def)

lemma bar_product:
  assumes "int_ok w" "0 \<le> c" "c \<le> 1" "0 \<le> w"
  shows "\<exists>v. dmul (double_of_int w) (Fin c) = Fin v \<and> 0 \<le> v \<and> v \<le> of_int w"
proof -
  have "of_int w * c \<le> of_int w * 1" using assms by (intro mult_left_mono) simp_all
  then have hi: "of_int w * c \<le> of_int w" by simp
  have lo: "of_int 0 \<le> of_int w * c" using assms by simp
  have "w < 2 ^ 53" using assms(1) by (simp add: int_ok_def)
  from round_double_between [OF lo hi _ this]
  show ?thesis by (simp add: round_double_int [OF assms(1)] double_of_int_def)
qed

lemma bar_product_neg:
  assumes "int_ok w" "0 \<le> c" "c \<le> 1" "w \<le> 0"
  shows "\<exists>v. dmul (double_of_int w) (Fin c) = Fin v \<and> of_int w \<le> v \<and> v \<le> 0"
proof -
  have "c * of_int w \<ge> 1 * of_int w" using assms by (intro mult_right_mono_neg) simp_all
  then have lo: "of_int w \<le> of_int w * c" by (simp add: mult.commute)
  have hi: "of_int w * c \<le> of_int 0" using assms by (simp add: mult_nonpos_nonneg)
  have "- (2 ^ 53) < w" using assms(1) by (simp add: int_ok_def)
  from round_double_between [OF lo hi this]
  show ?thesis by (simp add: round_double_int [OF assms(1)] double_of_int_def)
qed

lemma dmul_NaN_right: "dmul x NaN = NaN"
  by (cases x) simp_all

lemma trunc_floor: "0 \<le> v \<Longrightarrow> trunc v = \<lfloor>v\<rfloor>"
  by (simp add: trunc_def)

lemma bitlen_numeral_simps:
  "bitlen (numeral k) = bitlen (numeral k div 2) + 1"
  "bitlen 1 = 1"
  by (subst compute_bitlen, simp)+

lemmas rd_eval = round_double_def ilog2_def round_half_even_def pow2_def Let_def
  bitlen_numeral_simps

lemma literal_033: "round_double (33 / 100) = Fin (5944751508129055 / 18014398509481984)"
  by (simp add: rd_eval)

lemma literal_067: "round_double (67 / 100) = Fin (6034823500676465 / 9007199254740992)"
  by (simp add: rd_eval)

lemmas draw_eval = draw_bar_def std_clamp_def int_of_size_def int_ok_def double_to_int_def
  trunc_def double_of_int_def bar_color_def literal_033 literal_067 print_string_def
  set_color_def remove_color_def

subsection \<open>The bar\<close>

text \<open>
  C1, amended. For every fraction that is not a NaN, and every width and label for
  which the \<open>int\<close> arithmetic of \<open>draw_bar\<close> does not overflow: the fraction is clamped to
  a number \<open>c\<close> between 0 and 1; \<open>2 + len(str)\<close> columns are taken from the width; and on
  a track that is not negative the bar has exactly \<open>floor(v)\<close> glyphs, where \<open>v\<close> is the
  double product of the track width and \<open>c\<close>. That number is between 0 and the track width.
\<close>

theorem draw_bar_clamps:
  assumes "pc \<noteq> NaN"
    and "length str < 2147483646"
    and "track = width - (2 + int (length str))"
    and "0 \<le> track"
    and "int_ok track \<and> int_ok (col + track) \<and> int_ok (col + track + 1)"
  shows "\<exists>c v. std_clamp pc (Fin 0) (Fin 1) = Fin c \<and> 0 \<le> c \<and> c \<le> 1
           \<and> dmul (double_of_int track) (Fin c) = Fin v
           \<and> 0 \<le> \<lfloor>v\<rfloor> \<and> \<lfloor>v\<rfloor> \<le> track
           \<and> draw_bar use_color row col width pc str =
               Returned
                 ([Move row col, Clrtoeol, Attron A_BOLD, Addch CHR ''['', Attroff A_BOLD]
                  @ print_string use_color (bar_color (Fin c)) (replicate (nat \<lfloor>v\<rfloor>) CHR ''|'') A_NORMAL
                  @ [Move row (col + track + 1), Attron A_BOLD]
                  @ print_string use_color Value str A_NORMAL
                  @ [Addch CHR '']'', Attroff A_BOLD])"
proof -
  from std_clamp_unit [OF assms(1)]
  obtain c where c: "std_clamp pc (Fin 0) (Fin 1) = Fin c" "0 \<le> c" "c \<le> 1" by blast
  from assms(5) have ok: "int_ok track" "int_ok (col + track)" "int_ok (col + track + 1)"
    by simp_all
  from bar_product [OF ok(1) c(2) c(3) assms(4)]
  obtain v where v: "dmul (double_of_int track) (Fin c) = Fin v" "0 \<le> v" "v \<le> of_int track"
    by blast
  have fl: "0 \<le> \<lfloor>v\<rfloor>" "\<lfloor>v\<rfloor> \<le> track"
    using v(2,3) by (simp_all add: floor_le_iff le_floor_iff)
  have size: "int_of_size (length str) = int (length str)"
    using assms(2) by (simp add: int_of_size_small)
  have reserved: "int_ok (2 + int (length str))"
    using assms(2) by (simp add: int_ok_def)
  have "int_ok \<lfloor>v\<rfloor>"
    using fl ok(1) unfolding int_ok_def by linarith
  then have cast: "double_to_int (Fin v) = Some \<lfloor>v\<rfloor>"
    using v(2) by (simp add: double_to_int_def trunc_floor)
  have "draw_bar use_color row col width pc str =
      Returned
        ([Move row col, Clrtoeol, Attron A_BOLD, Addch CHR ''['', Attroff A_BOLD]
         @ print_string use_color (bar_color (Fin c)) (replicate (nat \<lfloor>v\<rfloor>) CHR ''|'') A_NORMAL
         @ [Move row (col + track + 1), Attron A_BOLD]
         @ print_string use_color Value str A_NORMAL
         @ [Addch CHR '']'', Attroff A_BOLD])"
    using fl ok reserved
    by (simp add: draw_bar_def Let_def c(1) size assms(3) [symmetric] v(1) cast)
  with c v(1) fl show ?thesis by blast
qed

theorem draw_bar_clamps_witness:
  "Fin (1 / 2) \<noteq> NaN
   \<and> length ''50%'' < 2147483646
   \<and> (15 :: int) = 20 - (2 + int (length ''50%''))
   \<and> (0 :: int) \<le> 15
   \<and> (int_ok 15 \<and> int_ok (15 + 15) \<and> int_ok (15 + 15 + 1))
   \<and> draw_bar True 1 15 20 (Fin (1 / 2)) ''50%'' =
       Returned
         ([Move 1 15, Clrtoeol, Attron A_BOLD, Addch CHR ''['', Attroff A_BOLD]
          @ print_string True Warn ''|||||||'' A_NORMAL
          @ [Move 1 31, Attron A_BOLD]
          @ print_string True Value ''50%'' A_NORMAL
          @ [Addch CHR '']'', Attroff A_BOLD])"
proof -
  have h: "Fin (1 / 2) \<noteq> NaN" "length ''50%'' < 2147483646"
    "(15 :: int) = 20 - (2 + int (length ''50%''))" "(0 :: int) \<le> 15"
    "int_ok 15 \<and> int_ok (15 + 15) \<and> int_ok (15 + 15 + 1)"
    by (simp_all add: int_ok_def)
  from draw_bar_clamps [OF h, of True 1]
  obtain c v where cv: "std_clamp (Fin (1 / 2)) (Fin 0) (Fin 1) = Fin c"
    "dmul (double_of_int 15) (Fin c) = Fin v"
    "draw_bar True 1 15 20 (Fin (1 / 2)) ''50%'' =
       Returned
         ([Move 1 15, Clrtoeol, Attron A_BOLD, Addch CHR ''['', Attroff A_BOLD]
          @ print_string True (bar_color (Fin c)) (replicate (nat \<lfloor>v\<rfloor>) CHR ''|'') A_NORMAL
          @ [Move 1 (15 + 15 + 1), Attron A_BOLD]
          @ print_string True Value ''50%'' A_NORMAL
          @ [Addch CHR '']'', Attroff A_BOLD])"
    by blast
  from cv(1) have c: "c = 1 / 2"
    by (simp add: std_clamp_def)
  from cv(2) [unfolded c] have v: "v = 15 / 2"
    by (simp add: double_of_int_def rd_eval)
  have band: "bar_color (Fin (1 / 2)) = Warn"
    by (simp add: bar_color_def literal_033 literal_067)
  have bar: "replicate 7 CHR ''|'' = ''|||||||''"
    by (simp add: eval_nat_numeral)
  from cv(3) have "draw_bar True 1 15 20 (Fin (1 / 2)) ''50%'' =
       Returned
         ([Move 1 15, Clrtoeol, Attron A_BOLD, Addch CHR ''['', Attroff A_BOLD]
          @ print_string True Warn ''|||||||'' A_NORMAL
          @ [Move 1 31, Attron A_BOLD]
          @ print_string True Value ''50%'' A_NORMAL
          @ [Addch CHR '']'', Attroff A_BOLD])"
    by (simp add: c v band bar)
  with h show ?thesis
    by blast
qed

text \<open>
  A NaN is a fraction that the program computes (zero used bytes of a zero total, as
  when no telemetry file exists). The clamp returns it as it is, and the conversion of
  the bar length to \<open>int\<close> is then undefined.
\<close>

theorem draw_bar_nan_counterexample:
  "vram files_none dev_uncalibrated = Inr (''0/0MiB'', NaN)
   \<and> std_clamp NaN (Fin 0) (Fin 1) = NaN
   \<and> draw_bar True 2 15 60 NaN ''0/0MiB'' = Undefined"
  by (simp add: vram_def read_file_def files_none_def stoull_0 bind_exn_def dev_uncalibrated_def
      double_of_ull_def round_double_def to_string.simps digit_char_def std_clamp_def
      draw_bar_def Let_def int_of_size_def int_ok_def double_to_int_def dmul_NaN_right)

text \<open>
  The product is the double product. The double nearest to two thirds is below two
  thirds; three times it is below 2 by \<open>2^-53\<close> and rounds to 2. A track of three columns
  then holds a bar of two glyphs, where the floor of the exact product is 1.
\<close>

lemma bar_length_rounds_product:
  "round_double (2 / 3) = Fin (6004799503160661 / 9007199254740992)
   \<and> \<lfloor>3 * (6004799503160661 / 9007199254740992 :: real)\<rfloor> = 1
   \<and> dmul (double_of_int 3) (Fin (6004799503160661 / 9007199254740992)) = Fin 2"
  by (simp add: double_of_int_def rd_eval)

lemma bar_product_below:
  assumes "int_ok w" "0 \<le> c" "c \<le> 1" "of_int w * c \<le> - 1"
  shows "\<exists>v. dmul (double_of_int w) (Fin c) = Fin v \<and> of_int w \<le> v \<and> v \<le> - 1"
proof -
  have "w \<le> 0"
  proof (rule ccontr)
    assume "\<not> w \<le> 0"
    then have "0 \<le> real_of_int w * c" using assms(2) by simp
    with assms(4) show False by simp
  qed
  then have "c * of_int w \<ge> 1 * of_int w" using assms by (intro mult_right_mono_neg) simp_all
  then have lo: "of_int w \<le> of_int w * c" by (simp add: mult.commute)
  have hi: "of_int w * c \<le> of_int (- 1)" using assms(4) by simp
  have "- (2 ^ 53) < w" using assms(1) by (simp add: int_ok_def)
  from round_double_between [OF lo hi this]
  show ?thesis by (simp add: round_double_int [OF assms(1)] double_of_int_def)
qed

lemma trunc_nonpos: "v \<le> 0 \<Longrightarrow> trunc v = \<lceil>v\<rceil>"
  by (auto simp: trunc_def)

lemma bar_color_one: "bar_color (Fin 1) = Bad"
  by (simp add: bar_color_def literal_033 literal_067)

lemma bar_color_zero: "bar_color (Fin 0) = Ok"
  by (simp add: bar_color_def literal_033 literal_067)

text \<open>
  C2, amended. For every call with a fraction that is not a NaN in which the reserved
  width \<open>2 + len(str)\<close> is at least the available width, \<open>draw_bar\<close> has a defined outcome
  and draws no bar glyph. When the track width times the clamped fraction is \<open>-1\<close> or
  less, the computed bar length is negative and \<open>draw_bar\<close> clears the row and draws
  nothing further. In every case its calls are either those two alone, or those and
  the two brackets around an empty bar and the label; the label is then written from
  column \<open>col + track + 1\<close>, which is at most \<open>col + 1\<close> and left of \<open>col\<close> for a track
  below \<open>-1\<close>. Nothing keeps that column inside the columns of the bar.
\<close>

theorem draw_bar_too_narrow:
  assumes "pc \<noteq> NaN"
    and "length str < 2147483646"
    and "track = width - (2 + int (length str))"
    and "track \<le> 0"
    and "int_ok track \<and> int_ok (col + track) \<and> int_ok (col + track + 1)"
  shows "\<exists>c. std_clamp pc (Fin 0) (Fin 1) = Fin c \<and> 0 \<le> c \<and> c \<le> 1
           \<and> (of_int track * c \<le> - 1 \<longrightarrow>
                draw_bar use_color row col width pc str = Returned [Move row col, Clrtoeol])
           \<and> (draw_bar use_color row col width pc str = Returned [Move row col, Clrtoeol]
                \<or> draw_bar use_color row col width pc str =
                    Returned
                      ([Move row col, Clrtoeol, Attron A_BOLD, Addch CHR ''['', Attroff A_BOLD]
                       @ print_string use_color (bar_color (Fin c)) [] A_NORMAL
                       @ [Move row (col + track + 1), Attron A_BOLD]
                       @ print_string use_color Value str A_NORMAL
                       @ [Addch CHR '']'', Attroff A_BOLD]))
           \<and> col + track + 1 \<le> col + 1"
proof -
  from std_clamp_unit [OF assms(1)]
  obtain c where c: "std_clamp pc (Fin 0) (Fin 1) = Fin c" "0 \<le> c" "c \<le> 1" by blast
  from assms(5) have ok: "int_ok track" "int_ok (col + track)" "int_ok (col + track + 1)"
    by simp_all
  have size: "int_of_size (length str) = int (length str)"
    using assms(2) by (simp add: int_of_size_small)
  have reserved: "int_ok (2 + int (length str))"
    using assms(2) by (simp add: int_ok_def)
  have below: "draw_bar use_color row col width pc str = Returned [Move row col, Clrtoeol]"
    if "of_int track * c \<le> - 1"
  proof -
    from bar_product_below [OF ok(1) c(2) c(3) that]
    obtain v where v: "dmul (double_of_int track) (Fin c) = Fin v" "of_int track \<le> v" "v \<le> - 1"
      by blast
    have cl: "track \<le> \<lceil>v\<rceil>" "\<lceil>v\<rceil> \<le> - 1"
      using v(2,3) by (simp_all add: le_ceiling_iff ceiling_le_iff)
    then have "int_ok \<lceil>v\<rceil>" using ok(1) unfolding int_ok_def by linarith
    then have "double_to_int (Fin v) = Some \<lceil>v\<rceil>"
      using v(3) by (simp add: double_to_int_def trunc_nonpos)
    then show ?thesis
      using cl v(3) reserved ok
      by (simp add: draw_bar_def Let_def c(1) size assms(3) [symmetric] v(1))
  qed
  from bar_product_neg [OF ok(1) c(2) c(3) assms(4)]
  obtain v where v: "dmul (double_of_int track) (Fin c) = Fin v" "of_int track \<le> v" "v \<le> 0"
    by blast
  have cl: "track \<le> \<lceil>v\<rceil>" "\<lceil>v\<rceil> \<le> 0"
    using v(2,3) by (simp_all add: le_ceiling_iff ceiling_le_iff)
  then have "int_ok \<lceil>v\<rceil>" using ok(1) unfolding int_ok_def by linarith
  then have cast: "double_to_int (Fin v) = Some \<lceil>v\<rceil>"
    using v(3) by (simp add: double_to_int_def trunc_nonpos)
  have "draw_bar use_color row col width pc str = Returned [Move row col, Clrtoeol]
        \<or> draw_bar use_color row col width pc str =
            Returned
              ([Move row col, Clrtoeol, Attron A_BOLD, Addch CHR ''['', Attroff A_BOLD]
               @ print_string use_color (bar_color (Fin c)) [] A_NORMAL
               @ [Move row (col + track + 1), Attron A_BOLD]
               @ print_string use_color Value str A_NORMAL
               @ [Addch CHR '']'', Attroff A_BOLD])"
  proof (cases "\<lceil>v\<rceil> < 0")
    case True
    then show ?thesis
      using reserved ok
      by (simp add: draw_bar_def Let_def c(1) size assms(3) [symmetric] v(1) cast)
  next
    case False
    with cl have "\<lceil>v\<rceil> = 0" by linarith
    then show ?thesis
      using reserved ok
      by (simp add: draw_bar_def Let_def c(1) size assms(3) [symmetric] v(1) cast)
  qed
  moreover have "col + track + 1 \<le> col + 1"
    using assms(4) by simp
  ultimately show ?thesis
    using c below by blast
qed

theorem draw_bar_too_narrow_witness:
  "Fin 1 \<noteq> NaN
   \<and> length ''100%'' < 2147483646
   \<and> (- 3 :: int) = 3 - (2 + int (length ''100%''))
   \<and> (- 3 :: int) \<le> 0
   \<and> (int_ok (- 3) \<and> int_ok (15 + - 3) \<and> int_ok (15 + - 3 + 1))
   \<and> real_of_int (- 3) * 1 \<le> - 1
   \<and> draw_bar True 1 15 3 (Fin 1) ''100%'' = Returned [Move 1 15, Clrtoeol]"
proof -
  have h: "Fin 1 \<noteq> NaN" "length ''100%'' < 2147483646"
    "(- 3 :: int) = 3 - (2 + int (length ''100%''))" "(- 3 :: int) \<le> 0"
    "int_ok (- 3) \<and> int_ok (15 + - 3) \<and> int_ok (15 + - 3 + 1)"
    by (simp_all add: int_ok_def)
  from draw_bar_too_narrow [OF h, of True 1]
  obtain c where c: "std_clamp (Fin 1) (Fin 0) (Fin 1) = Fin c"
    "real_of_int (- 3) * c \<le> - 1 \<longrightarrow>
       draw_bar True 1 15 3 (Fin 1) ''100%'' = Returned [Move 1 15, Clrtoeol]"
    by blast
  from c(1) have "c = 1"
    by (simp add: std_clamp_def)
  with c(2) have "draw_bar True 1 15 3 (Fin 1) ''100%'' = Returned [Move 1 15, Clrtoeol]"
    by simp
  with h show ?thesis
    by simp
qed

text \<open>
  On a terminal 22 columns wide a bar has three columns, and the brackets with the label
  \<open>25%\<close> need five: the track is \<open>-2\<close>. The bar length is \<open>(int)(-2 * 0.25) = 0\<close>, which is
  not negative. The brackets and the label are drawn, and the label starts in column
  14, left of the column 15 that the call was given.
\<close>

theorem draw_bar_narrow_counterexample:
  "(3 :: int) \<le> 2 + int (length ''25%'')
   \<and> draw_bar True 1 15 3 (Fin (1 / 4)) ''25%'' =
       Returned
         [Move 1 15, Clrtoeol, Attron A_BOLD, Addch CHR ''['', Attroff A_BOLD,
          Attron A_NORMAL, Attron (COLOR_PAIR Ok), Addstr [], Attroff (COLOR_PAIR Ok),
          Attroff A_NORMAL, Move 1 14, Attron A_BOLD,
          Attron A_NORMAL, Attron (COLOR_PAIR Value), Addstr ''25%'', Attroff (COLOR_PAIR Value),
          Attroff A_NORMAL, Addch CHR '']'', Attroff A_BOLD]
   \<and> (14 :: int) < 15"
  by (simp add: draw_eval rd_eval)

text \<open>
  When the reserved width equals the available width, the track is 0 and the bar length
  is 0 for every fraction: the brackets and the label are drawn around an empty bar.
\<close>

lemma draw_bar_zero_track:
  "draw_bar True 1 15 4 (Fin (1 / 2)) ''0%'' =
       Returned
         [Move 1 15, Clrtoeol, Attron A_BOLD, Addch CHR ''['', Attroff A_BOLD,
          Attron A_NORMAL, Attron (COLOR_PAIR Warn), Addstr [], Attroff (COLOR_PAIR Warn),
          Attroff A_NORMAL, Move 1 16, Attron A_BOLD,
          Attron A_NORMAL, Attron (COLOR_PAIR Value), Addstr ''0%'', Attroff (COLOR_PAIR Value),
          Attroff A_NORMAL, Addch CHR '']'', Attroff A_BOLD]"
  by (simp add: draw_eval rd_eval)

subsection \<open>Fetching a metric\<close>

lemmas fetch_eval = vram_def power_dev_def read_file_def getline_def newline_def bind_exn_def
  stoull_eval double_of_ull_def to_string.simps digit_char_def dev_uncalibrated_def

lemma device_ctor_used_only: "device_ctor files_used_only ''/d/'' = Inr dev_uncalibrated"
  by (simp add: device_ctor_def files_used_only_def read_file_def stoull_0 bind_exn_def
      mib_str_def to_string.simps digit_char_def dev_uncalibrated_def)

lemma vram_used_only: "vram files_used_only dev_uncalibrated = Inr (''512/0MiB'', PInf)"
  by (simp add: fetch_eval files_used_only_def rd_eval signed_inf_def)

lemma vram_trailing: "vram files_trailing_text dev_1gib = Inr (''512/1024MiB'', Fin (1 / 2))"
  by (simp add: fetch_eval files_trailing_text_def dev_1gib_def rd_eval)

lemma power_33w: "power_dev files_power_33w dev_power_100w = Inr (''33W'', round_double (33 / 100))"
  by (simp add: fetch_eval files_power_33w_def dev_power_100w_def rd_eval)

lemma power_idle: "power_dev files_idle_power dev_power_caps = Inr (''30W'', Fin (4197659095849313 / 16384))"
  by (simp add: fetch_eval files_idle_power_def dev_power_caps_def rd_eval)

text \<open>
  With a total of zero, as after a missing calibration file, the fraction of used video
  memory is never finite: NaN for a reading of zero, plus infinity for any other.
\<close>

lemma vram_zero_total:
  assumes "m_vram dev = 0"
    and "stoull (read_file files (m_path dev) ''mem_info_vram_used'') = Inr u"
  shows "\<exists>label. vram files dev = Inr (label, if u = 0 then NaN else PInf)"
proof (cases "u = 0")
  case True
  then show ?thesis
    using assms by (simp add: vram_def bind_exn_def double_of_ull_def round_double_def)
next
  case False
  then have "uint u \<noteq> 0" by (simp add: uint_0_iff)
  moreover have "0 \<le> uint u" by simp
  ultimately have "1 \<le> uint u" by linarith
  then have "1 \<le> real_of_int (uint u)" by (simp only: of_int_1_le_iff)
  from round_double_pos [OF this]
  have "ddiv (double_of_ull u) (Fin 0) = PInf"
    by (auto simp: double_of_ull_def signed_inf_def)
  with False show ?thesis
    using assms by (simp add: vram_def bind_exn_def Let_def double_of_ull_def [of 0] round_double_def)
qed

text \<open>
  C3. The band of a finite fraction \<open>x\<close> is ok below the double \<open>0.33\<close>, warn from there
  to below the double \<open>0.67\<close>, and bad otherwise; the infinities and NaN compare as doubles
  do. At the double \<open>0.33\<close> itself, which is also the fraction of 33 W between caps of
  0 W and 100 W, the first comparison is false and the band is warn.
\<close>

theorem bar_color_bands:
  "bar_color (Fin x) =
     (if x < 5944751508129055 / 18014398509481984 then Ok
      else if x < 6034823500676465 / 9007199254740992 then Warn
      else Bad)
   \<and> bar_color NInf = Ok \<and> bar_color PInf = Bad \<and> bar_color NaN = Bad
   \<and> round_double (33 / 100) = Fin (5944751508129055 / 18014398509481984)
   \<and> bar_color (round_double (33 / 100)) = Warn
   \<and> power_dev files_power_33w dev_power_100w = Inr (''33W'', round_double (33 / 100))"
  by (simp add: bar_color_def literal_033 literal_067 power_33w)

text \<open>
  C5, amended. A fraction of plus infinity (a reading that is not zero over a total of
  zero) is clamped to 1: the bar fills the whole track, in the bad colour. Minus
  infinity is clamped to 0: the bar is empty. A NaN (zero over zero) is returned by
  the clamp as it is, and the conversion of the bar length to \<open>int\<close> is undefined; the
  code holds no test for a fraction that is not finite.
\<close>

theorem nonfinite_fraction_rendering:
  assumes "length str < 2147483646"
    and "track = width - (2 + int (length str))"
    and "0 \<le> track"
    and "int_ok track \<and> int_ok (col + track) \<and> int_ok (col + track + 1)"
  shows "draw_bar use_color row col width PInf str =
           Returned
             ([Move row col, Clrtoeol, Attron A_BOLD, Addch CHR ''['', Attroff A_BOLD]
              @ print_string use_color Bad (replicate (nat track) CHR ''|'') A_NORMAL
              @ [Move row (col + track + 1), Attron A_BOLD]
              @ print_string use_color Value str A_NORMAL
              @ [Addch CHR '']'', Attroff A_BOLD])
         \<and> draw_bar use_color row col width NInf str =
           Returned
             ([Move row col, Clrtoeol, Attron A_BOLD, Addch CHR ''['', Attroff A_BOLD]
              @ print_string use_color Ok [] A_NORMAL
              @ [Move row (col + track + 1), Attron A_BOLD]
              @ print_string use_color Value str A_NORMAL
              @ [Addch CHR '']'', Attroff A_BOLD])
         \<and> std_clamp NaN (Fin 0) (Fin 1) = NaN
         \<and> draw_bar use_color row col width NaN str = Undefined"
proof -
  from assms(4) have ok: "int_ok track" "int_ok (col + track)" "int_ok (col + track + 1)"
    by simp_all
  have size: "int_of_size (length str) = int (length str)"
    using assms(1) by (simp add: int_of_size_small)
  have reserved: "int_ok (2 + int (length str))"
    using assms(1) by (simp add: int_ok_def)
  have exact: "double_of_int track = Fin (of_int track)"
    by (simp add: double_of_int_def round_double_int [OF ok(1)])
  have whole: "dmul (double_of_int track) (Fin 1) = Fin (of_int track)"
    by (simp add: exact round_double_int [OF ok(1)])
  have "round_double 0 = Fin 0"
    by (simp add: round_double_def)
  then have none: "dmul (double_of_int track) (Fin 0) = Fin 0"
    by (simp add: exact)
  have cast: "double_to_int (Fin (of_int track)) = Some track"
    using ok(1) assms(3) by (simp add: double_to_int_def trunc_def)
  have cast0: "double_to_int (Fin 0) = Some 0"
    by (simp add: double_to_int_def trunc_def int_ok_def)
  have cast_nan: "double_to_int NaN = None"
    by (simp add: double_to_int_def)
  have pinf: "std_clamp PInf (Fin 0) (Fin 1) = Fin 1"
    and ninf: "std_clamp NInf (Fin 0) (Fin 1) = Fin 0"
    and nan: "std_clamp NaN (Fin 0) (Fin 1) = NaN"
    by (simp_all add: std_clamp_def)
  show ?thesis
    using reserved ok assms(3)
    by (simp add: draw_bar_def Let_def size assms(2) [symmetric] pinf ninf nan whole none cast
        cast0 cast_nan bar_color_one bar_color_zero dmul_NaN_right)
qed

theorem nonfinite_fraction_rendering_witness:
  "length ''7/0MiB'' < 2147483646
   \<and> (32 :: int) = 40 - (2 + int (length ''7/0MiB''))
   \<and> (0 :: int) \<le> 32
   \<and> (int_ok 32 \<and> int_ok (15 + 32) \<and> int_ok (15 + 32 + 1))
   \<and> draw_bar False 0 15 40 PInf ''7/0MiB'' =
         Returned
           ([Move 0 15, Clrtoeol, Attron A_BOLD, Addch CHR ''['', Attroff A_BOLD]
            @ print_string False Bad (replicate (nat 32) CHR ''|'') A_NORMAL
            @ [Move 0 (15 + 32 + 1), Attron A_BOLD]
            @ print_string False Value ''7/0MiB'' A_NORMAL
            @ [Addch CHR '']'', Attroff A_BOLD])
   \<and> draw_bar False 0 15 40 NaN ''7/0MiB'' = Undefined"
proof -
  have h: "length ''7/0MiB'' < 2147483646" "(32 :: int) = 40 - (2 + int (length ''7/0MiB''))"
    "(0 :: int) \<le> 32" "int_ok 32 \<and> int_ok (15 + 32) \<and> int_ok (15 + 32 + 1)"
    by (simp_all add: int_ok_def)
  from nonfinite_fraction_rendering [OF h, of False 0] h show ?thesis
    by blast
qed

text \<open>
  The counter of used memory holds 512 MiB and the file of the total is missing: the
  total is 0, the fraction is plus infinity, and the bar has 50 glyphs on a track of 50.
\<close>

theorem infinite_fraction_counterexample:
  "device_ctor files_used_only ''/d/'' = Inr dev_uncalibrated
   \<and> vram files_used_only dev_uncalibrated = Inr (''512/0MiB'', PInf)
   \<and> draw_bar True 2 15 60 PInf ''512/0MiB'' =
       Returned
         [Move 2 15, Clrtoeol, Attron A_BOLD, Addch CHR ''['', Attroff A_BOLD,
          Attron A_NORMAL, Attron (COLOR_PAIR Bad), Addstr (replicate 50 CHR ''|''),
          Attroff (COLOR_PAIR Bad), Attroff A_NORMAL, Move 2 66, Attron A_BOLD,
          Attron A_NORMAL, Attron (COLOR_PAIR Value), Addstr ''512/0MiB'',
          Attroff (COLOR_PAIR Value), Attroff A_NORMAL, Addch CHR '']'', Attroff A_BOLD]
   \<and> replicate 50 CHR ''|'' \<noteq> []"
  by (simp add: device_ctor_used_only vram_used_only draw_eval rd_eval)

text \<open>
  C4. A device whose lower power cap is 183 W draws 30 W. The subtraction
  \<open>p - m_power_min\<close> is unsigned and wraps to \<open>2^64 - 153000000\<close>; the fraction is about
  \<open>2.56e11\<close>, not the negative \<open>-2.125\<close> of the formula, and the clamp makes it 1.
\<close>

theorem power_below_min_wraps:
  "power_dev files_idle_power dev_power_caps = Inr (''30W'', Fin (4197659095849313 / 16384))
   \<and> (30000000 - 183000000 :: ull) = 18446744073556551616
   \<and> std_clamp (Fin (4197659095849313 / 16384)) (Fin 0) (Fin 1) = Fin 1
   \<and> bar_color (Fin 1) = Bad"
  by (simp add: power_idle std_clamp_def bar_color_one)

lemma uint_sub_le: "(y :: ull) \<le> x \<Longrightarrow> uint (x - y) = uint x - uint y"
  by (simp add: uint_sub_lem [symmetric] word_le_def)

lemma unsigned_sub_le:
  "(y :: ull) \<le> x \<Longrightarrow> (unsigned (x - y) :: real) = unsigned x - unsigned y"
proof -
  assume "y \<le> x"
  then have "real_of_int (uint (x - y)) = real_of_int (uint x) - real_of_int (uint y)"
    by (simp only: uint_sub_le of_int_diff)
  then show ?thesis by simp
qed

text \<open>
  For a reading at or above the lower cap, and caps in order, neither subtraction
  wraps: the fraction is the double quotient of \<open>p - min\<close> and \<open>max - min\<close>, and the label
  is the reading in whole watts.
\<close>

lemma power_in_order:
  assumes "stoull (read_file files (m_path dev) ''hwmon/hwmon1/power1_average'') = Inr p"
    and "m_power_min dev \<le> p"
    and "m_power_min dev \<le> m_power_max dev"
  shows "power_dev files dev =
           Inr (to_string (unat p div 1000000) @ ''W'',
                ddiv (round_double (of_int (uint p - uint (m_power_min dev))))
                     (round_double (of_int (uint (m_power_max dev) - uint (m_power_min dev)))))"
  using assms
  by (simp add: power_dev_def bind_exn_def Let_def double_of_ull_def unsigned_sub_le unat_div)

text \<open>
  A first line that goes on after its number is not a number, yet \<open>stoull\<close> converts the
  leading digits and the fetch succeeds.
\<close>

theorem trailing_text_counterexample:
  "read_file files_trailing_text (m_path dev_1gib) ''mem_info_vram_used'' = ''536870912 bytes''
   \<and> vram files_trailing_text dev_1gib = Inr (''512/1024MiB'', Fin (1 / 2))"
  by (simp add: vram_trailing)
    (simp add: read_file_def files_trailing_text_def dev_1gib_def dev_uncalibrated_def getline_def newline_def)

subsection \<open>Exceptions in the render loop\<close>

text \<open>A fetch fails exactly as the conversion of the line it read fails.\<close>

lemma bind_exn_Inl: "(bind_exn r f = Inl e) = (r = Inl e \<or> (\<exists>v. r = Inr v \<and> f v = Inl e))"
  by (cases r) (simp_all add: bind_exn_def)

lemma fetch_fails:
  "(busy u files dev = Inl e) = (stod u (read_file files (m_path dev) ''gpu_busy_percent'') = Inl e)"
  "(vram files dev = Inl e) = (stoull (read_file files (m_path dev) ''mem_info_vram_used'') = Inl e)"
  "(gtt files dev = Inl e) = (stoull (read_file files (m_path dev) ''mem_info_gtt_used'') = Inl e)"
  "(vis_vram files dev = Inl e) = (stoull (read_file files (m_path dev) ''mem_info_vis_vram_used'') = Inl e)"
  "(power_dev files dev = Inl e) = (stoull (read_file files (m_path dev) ''hwmon/hwmon1/power1_average'') = Inl e)"
  "(temperature files dev = Inl e) = (stoull (read_file files (m_path dev) ''hwmon/hwmon1/temp1_input'') = Inl e)"
  "(fan u files dev = Inl e) = (stod u (read_file files (m_path dev) ''hwmon/hwmon1/fan1_input'') = Inl e)"
  "(gfx_clock files dev = Inl e) = (stoull (read_file files (m_path dev) ''hwmon/hwmon1/freq1_input'') = Inl e)"
  "(mem_clock files dev = Inl e) = (stoull (read_file files (m_path dev) ''hwmon/hwmon1/freq2_input'') = Inl e)"
  by (simp_all add: busy_def vram_def gtt_def vis_vram_def power_dev_def temperature_def fan_def
      gfx_clock_def mem_clock_def Let_def bind_exn_Inl)

lemma then_step_Next: "(then_step s f = Next y) = (\<exists>x. s = Next x \<and> f x = Next y)"
  by (cases s) (simp_all add: then_step_def)

lemma bar_row_Next: "bar_row en uc w fetch st = Next st' \<Longrightarrow> en \<Longrightarrow> \<exists>r. fetch = Inr r"
  by (cases fetch) (simp_all add: bar_row_def)

lemma text_row_Next: "text_row en uc fetch st = Next st' \<Longrightarrow> en \<Longrightarrow> \<exists>r. fetch = Inr r"
  by (cases fetch) (simp_all add: text_row_def)

lemma tick_frame:
  assumes "tick u cfg cols files dev = Next frame"
  shows "cfg_enabled_rows cfg ! 0 \<longrightarrow> (\<exists>r. busy u files dev = Inr r)"
    and "cfg_enabled_rows cfg ! 1 \<longrightarrow> (\<exists>r. vram files dev = Inr r)"
    and "cfg_enabled_rows cfg ! 2 \<longrightarrow> (\<exists>r. gtt files dev = Inr r)"
    and "cfg_enabled_rows cfg ! 3 \<longrightarrow> (\<exists>r. vis_vram files dev = Inr r)"
    and "cfg_enabled_rows cfg ! 4 \<longrightarrow> (\<exists>r. power_dev files dev = Inr r)"
    and "cfg_enabled_rows cfg ! 5 \<longrightarrow> (\<exists>r. temperature files dev = Inr r)"
    and "cfg_enabled_rows cfg ! 6 \<longrightarrow> (\<exists>r. fan u files dev = Inr r)"
    and "cfg_enabled_rows cfg ! 8 \<longrightarrow> (\<exists>r. gfx_clock files dev = Inr r)"
    and "cfg_enabled_rows cfg ! 9 \<longrightarrow> (\<exists>r. mem_clock files dev = Inr r)"
  using assms
  by (auto simp: tick_def Let_def then_step_Next split: if_splits
      dest: bar_row_Next text_row_Next)

lemma takeWhile_empty_iff: "(takeWhile P s = []) = (s = [] \<or> \<not> P (hd s))"
  by (cases s) simp_all

lemma not_digit_chars [simp]:
  "\<not> isdigit CHR ''-''" "\<not> isdigit CHR ''+''" "\<not> isdigit CHR ''.''" "isdigit CHR ''0''"
  by (simp_all add: isdigit_def)

text \<open>There is a number for \<open>stoull\<close> exactly when a digit, or a sign and a digit, comes first.\<close>

lemma scan_int_digits:
  "(snd (scan_int line) \<noteq> []) =
     (\<exists>d rest. isdigit d \<and> (dropWhile isspace line = d # rest
        \<or> dropWhile isspace line = CHR ''-'' # d # rest
        \<or> dropWhile isspace line = CHR ''+'' # d # rest))"
proof (cases "dropWhile isspace line")
  case Nil
  show ?thesis unfolding scan_int_def Let_def Nil by simp
next
  case (Cons c r)
  show ?thesis
  proof (cases r)
    case Nil
    with Cons show ?thesis by (auto simp: scan_int_def Let_def)
  next
    case (Cons c' r')
    with \<open>dropWhile isspace line = c # r\<close> show ?thesis
      by (auto simp: scan_int_def Let_def)
  qed
qed

lemma stoull_cases:
  "stoull line =
     (if snd (scan_int line) = [] then Inl Invalid_argument
      else if 18446744073709551616 \<le> digits_value (snd (scan_int line)) then Inl Out_of_range
      else Inr (if fst (scan_int line) then - word_of_nat (digits_value (snd (scan_int line)))
                else word_of_nat (digits_value (snd (scan_int line)))))"
  by (simp add: stoull_def Let_def split: prod.splits)

text \<open>There is a number for \<open>stod\<close> exactly when a digit, or a point and a digit, comes first.\<close>

lemma scan_float_None:
  "(scan_float r = None) =
     (\<not> (\<exists>d rest. isdigit d \<and> (r = d # rest \<or> r = CHR ''.'' # d # rest)))"
proof (cases r)
  case Nil
  then show ?thesis by (simp add: scan_float_def scan_mantissa_def)
next
  case (Cons c t)
  show ?thesis
  proof (cases "isdigit c")
    case True
    with Cons show ?thesis
      by (auto simp: scan_float_def scan_mantissa_def Let_def split: prod.splits)
  next
    case False
    with Cons have "take 2 r \<noteq> ''0x''" "take 2 r \<noteq> ''0X''"
      by (cases t; auto)+
    with False Cons show ?thesis
      by (cases t) (auto simp: scan_float_def scan_mantissa_def Let_def takeWhile_empty_iff
          split: prod.splits)
  qed
qed

lemma stod_invalid:
  "(stod u line = Inl Invalid_argument) =
     (let r = snd (split_sign (dropWhile isspace line))
      in \<not> starts_ci [''iI'', ''nN'', ''fF''] r \<and> \<not> starts_ci [''nN'', ''aA'', ''nN''] r
         \<and> \<not> (\<exists>d rest. isdigit d \<and> (r = d # rest \<or> r = CHR ''.'' # d # rest)))"
proof -
  obtain neg r where r: "split_sign (dropWhile isspace line) = (neg, r)"
    by (cases "split_sign (dropWhile isspace line)")
  have converted: "(case round_double v of
        Fin y \<Rightarrow> if v \<noteq> 0 \<and> \<bar>v\<bar> < pow2 (- 1022) \<and> u v then Inl Out_of_range else Inr (Fin y)
      | _ \<Rightarrow> Inl Out_of_range) \<noteq> Inl Invalid_argument" for v
    by (cases "round_double v") simp_all
  have "(stod u line = Inl Invalid_argument) =
      (\<not> starts_ci [''iI'', ''nN'', ''fF''] r \<and> \<not> starts_ci [''nN'', ''aA'', ''nN''] r
       \<and> scan_float r = None)"
  proof (cases "scan_float r")
    case None
    then show ?thesis by (simp add: stod_def r)
  next
    case (Some x)
    then show ?thesis using converted by (simp add: stod_def r Let_def)
  qed
  then show ?thesis by (simp add: r scan_float_None)
qed

lemma tick_busy_throws:
  "int_ok (cols - text_len) \<and> int_ok (cols - text_len - hpad) \<Longrightarrow> cfg_enabled_rows cfg ! 0 \<Longrightarrow>
     busy u files dev = Inl e \<Longrightarrow> tick u cfg cols files dev = Thrown e"
  by (simp add: tick_def Let_def bar_row_def then_step_def)

lemma tick_vram_throws:
  "int_ok (cols - text_len) \<and> int_ok (cols - text_len - hpad) \<Longrightarrow> \<not> cfg_enabled_rows cfg ! 0 \<Longrightarrow>
     cfg_enabled_rows cfg ! 1 \<Longrightarrow> vram files dev = Inl e \<Longrightarrow> tick u cfg cols files dev = Thrown e"
  by (simp add: tick_def Let_def bar_row_def then_step_def)

lemma render_loop_no_frame:
  "\<not> it_should_close it \<Longrightarrow> \<forall>frame. tick u cfg (it_cols it) (it_files it) dev \<noteq> Next frame \<Longrightarrow>
     (\<exists>e. render_loop u cfg dev (it # its) = Terminated e)
     \<or> render_loop u cfg dev (it # its) = Undefined_run"
  by (cases "tick u cfg (it_cols it) (it_files it) dev") simp_all

lemma render_loop_thrown:
  "\<not> it_should_close it \<Longrightarrow> tick u cfg (it_cols it) (it_files it) dev = Thrown e \<Longrightarrow>
     render_loop u cfg dev (it # its) = Terminated e"
  by simp

lemmas stod_eval = stod_def split_sign_def starts_ci_def scan_float_def scan_mantissa_def
  scan_exponent_def isspace_def isdigit_def isxdigit_def digits_value_def xdigits_value_def
  xdigit_value_def pow10_def

lemmas line_eval = read_file_def getline_def newline_def dev_uncalibrated_def

text \<open>
  C7, amended. In an iteration of the render loop that is entered, when the first line
  of the file of an enabled numeric row holds no number that its conversion accepts,
  the process does not survive the iteration: an exception leaves \<open>main\<close>, which catches
  none, and the process is terminated; or its behaviour is undefined, when a row before
  it drew a NaN. With the width of the terminal in range, when \<open>busy\<close> is enabled and its
  conversion throws, or \<open>busy\<close> is disabled and \<open>vram\<close> is enabled and its conversion throws,
  the process is terminated by that exception. \<open>stoull\<close> throws \<open>invalid_argument\<close> exactly
  when, after white space, neither a digit nor a sign and a digit comes first, and
  \<open>out_of_range\<close> exactly when the digits exceed \<open>2^64 - 1\<close>; otherwise its result is the
  number these digits denote, negated in 64 bits after a minus sign, whatever follows
  them. \<open>stod\<close> throws \<open>invalid_argument\<close> exactly when, after white space and one sign,
  there comes neither \<open>inf\<close> nor \<open>nan\<close> nor a digit nor a point and a digit. A fetch that
  succeeds is computed from the converted number; no default is substituted.
\<close>

theorem malformed_reading_is_fatal:
  assumes "\<not> it_should_close it"
    and "rows = cfg_enabled_rows cfg"
    and "line = read_file (it_files it) (m_path dev)"
    and "run = render_loop u cfg dev (it # its)"
  shows
    "(rows ! 0 \<and> (\<exists>e. stod u (line ''gpu_busy_percent'') = Inl e)
      \<or> rows ! 1 \<and> (\<exists>e. stoull (line ''mem_info_vram_used'') = Inl e)
      \<or> rows ! 2 \<and> (\<exists>e. stoull (line ''mem_info_gtt_used'') = Inl e)
      \<or> rows ! 3 \<and> (\<exists>e. stoull (line ''mem_info_vis_vram_used'') = Inl e)
      \<or> rows ! 4 \<and> (\<exists>e. stoull (line ''hwmon/hwmon1/power1_average'') = Inl e)
      \<or> rows ! 5 \<and> (\<exists>e. stoull (line ''hwmon/hwmon1/temp1_input'') = Inl e)
      \<or> rows ! 6 \<and> (\<exists>e. stod u (line ''hwmon/hwmon1/fan1_input'') = Inl e)
      \<or> rows ! 8 \<and> (\<exists>e. stoull (line ''hwmon/hwmon1/freq1_input'') = Inl e)
      \<or> rows ! 9 \<and> (\<exists>e. stoull (line ''hwmon/hwmon1/freq2_input'') = Inl e)
      \<longrightarrow> (\<exists>e. run = Terminated e) \<or> run = Undefined_run)
     \<and> (int_ok (it_cols it - text_len) \<and> int_ok (it_cols it - text_len - hpad)
          \<and> rows ! 0 \<and> stod u (line ''gpu_busy_percent'') = Inl e
        \<longrightarrow> run = Terminated e)
     \<and> (int_ok (it_cols it - text_len) \<and> int_ok (it_cols it - text_len - hpad)
          \<and> \<not> rows ! 0 \<and> rows ! 1 \<and> stoull (line ''mem_info_vram_used'') = Inl e
        \<longrightarrow> run = Terminated e)
     \<and> (stoull s = Inl Invalid_argument) =
         (\<not> (\<exists>d rest. isdigit d \<and> (dropWhile isspace s = d # rest
               \<or> dropWhile isspace s = CHR ''-'' # d # rest
               \<or> dropWhile isspace s = CHR ''+'' # d # rest)))
     \<and> (stoull s = Inl Out_of_range) =
         (snd (scan_int s) \<noteq> [] \<and> 18446744073709551616 \<le> digits_value (snd (scan_int s)))
     \<and> (stoull s = Inr w) =
         (snd (scan_int s) \<noteq> [] \<and> digits_value (snd (scan_int s)) < 18446744073709551616
          \<and> w = (if fst (scan_int s) then - word_of_nat (digits_value (snd (scan_int s)))
                  else word_of_nat (digits_value (snd (scan_int s)))))
     \<and> (stod u s = Inl Invalid_argument) =
         (let r = snd (split_sign (dropWhile isspace s))
          in \<not> starts_ci [''iI'', ''nN'', ''fF''] r \<and> \<not> starts_ci [''nN'', ''aA'', ''nN''] r
             \<and> \<not> (\<exists>d rest. isdigit d \<and> (r = d # rest \<or> r = CHR ''.'' # d # rest)))
     \<and> (stoull (line ''mem_info_vram_used'') = Inr w \<longrightarrow>
          vram (it_files it) dev =
            Inr (to_string (unat (w div (1024 * 1024))) @ m_vram_str dev,
                 ddiv (double_of_ull w) (double_of_ull (m_vram dev))))
     \<and> (stod u (line ''gpu_busy_percent'') = Inr v \<longrightarrow>
          busy u (it_files it) dev =
            Inr (line ''gpu_busy_percent'' @ ''%'', dmul v (round_double (1 / 100))))"
proof -
  let ?tick = "tick u cfg (it_cols it) (it_files it) dev"
  have ends: "(\<exists>e. run = Terminated e) \<or> run = Undefined_run" if "\<forall>frame. ?tick \<noteq> Next frame"
    unfolding assms(4) using assms(1) that by (rule render_loop_no_frame)
  have any: "(\<exists>e. run = Terminated e) \<or> run = Undefined_run"
    if fails: "rows ! 0 \<and> (\<exists>e. stod u (line ''gpu_busy_percent'') = Inl e)
      \<or> rows ! 1 \<and> (\<exists>e. stoull (line ''mem_info_vram_used'') = Inl e)
      \<or> rows ! 2 \<and> (\<exists>e. stoull (line ''mem_info_gtt_used'') = Inl e)
      \<or> rows ! 3 \<and> (\<exists>e. stoull (line ''mem_info_vis_vram_used'') = Inl e)
      \<or> rows ! 4 \<and> (\<exists>e. stoull (line ''hwmon/hwmon1/power1_average'') = Inl e)
      \<or> rows ! 5 \<and> (\<exists>e. stoull (line ''hwmon/hwmon1/temp1_input'') = Inl e)
      \<or> rows ! 6 \<and> (\<exists>e. stod u (line ''hwmon/hwmon1/fan1_input'') = Inl e)
      \<or> rows ! 8 \<and> (\<exists>e. stoull (line ''hwmon/hwmon1/freq1_input'') = Inl e)
      \<or> rows ! 9 \<and> (\<exists>e. stoull (line ''hwmon/hwmon1/freq2_input'') = Inl e)"
  proof (rule ends, intro allI notI)
    fix frame
    assume "?tick = Next frame"
    note ok = tick_frame [OF this, folded assms(2)]
    have "\<not> (rows ! 0 \<and> (\<exists>e. stod u (line ''gpu_busy_percent'') = Inl e))"
      using ok(1) unfolding assms(3) fetch_fails(1) [symmetric] by auto
    moreover have "\<not> (rows ! 1 \<and> (\<exists>e. stoull (line ''mem_info_vram_used'') = Inl e))"
      using ok(2) unfolding assms(3) fetch_fails(2) [symmetric] by auto
    moreover have "\<not> (rows ! 2 \<and> (\<exists>e. stoull (line ''mem_info_gtt_used'') = Inl e))"
      using ok(3) unfolding assms(3) fetch_fails(3) [symmetric] by auto
    moreover have "\<not> (rows ! 3 \<and> (\<exists>e. stoull (line ''mem_info_vis_vram_used'') = Inl e))"
      using ok(4) unfolding assms(3) fetch_fails(4) [symmetric] by auto
    moreover have "\<not> (rows ! 4 \<and> (\<exists>e. stoull (line ''hwmon/hwmon1/power1_average'') = Inl e))"
      using ok(5) unfolding assms(3) fetch_fails(5) [symmetric] by auto
    moreover have "\<not> (rows ! 5 \<and> (\<exists>e. stoull (line ''hwmon/hwmon1/temp1_input'') = Inl e))"
      using ok(6) unfolding assms(3) fetch_fails(6) [symmetric] by auto
    moreover have "\<not> (rows ! 6 \<and> (\<exists>e. stod u (line ''hwmon/hwmon1/fan1_input'') = Inl e))"
      using ok(7) unfolding assms(3) fetch_fails(7) [symmetric] by auto
    moreover have "\<not> (rows ! 8 \<and> (\<exists>e. stoull (line ''hwmon/hwmon1/freq1_input'') = Inl e))"
      using ok(8) unfolding assms(3) fetch_fails(8) [symmetric] by auto
    moreover have "\<not> (rows ! 9 \<and> (\<exists>e. stoull (line ''hwmon/hwmon1/freq2_input'') = Inl e))"
      using ok(9) unfolding assms(3) fetch_fails(9) [symmetric] by auto
    ultimately show False
      using fails by blast
  qed
  have first: "run = Terminated e"
    if "int_ok (it_cols it - text_len) \<and> int_ok (it_cols it - text_len - hpad)"
      "rows ! 0" "stod u (line ''gpu_busy_percent'') = Inl e"
    unfolding assms(4) using assms(1)
  proof (rule render_loop_thrown)
    from that show "?tick = Thrown e"
      unfolding assms(2,3) fetch_fails [symmetric] by (intro tick_busy_throws)
  qed
  have second: "run = Terminated e"
    if "int_ok (it_cols it - text_len) \<and> int_ok (it_cols it - text_len - hpad)"
      "\<not> rows ! 0" "rows ! 1" "stoull (line ''mem_info_vram_used'') = Inl e"
    unfolding assms(4) using assms(1)
  proof (rule render_loop_thrown)
    from that show "?tick = Thrown e"
      unfolding assms(2,3) fetch_fails [symmetric] by (intro tick_vram_throws)
  qed
  have invalid: "(stoull s = Inl Invalid_argument) =
         (\<not> (\<exists>d rest. isdigit d \<and> (dropWhile isspace s = d # rest
               \<or> dropWhile isspace s = CHR ''-'' # d # rest
               \<or> dropWhile isspace s = CHR ''+'' # d # rest)))"
    unfolding scan_int_digits [symmetric] by (simp add: stoull_cases)
  have range: "(stoull s = Inl Out_of_range) =
         (snd (scan_int s) \<noteq> [] \<and> 18446744073709551616 \<le> digits_value (snd (scan_int s)))"
    by (simp add: stoull_cases)
  have val: "(stoull s = Inr w) =
         (snd (scan_int s) \<noteq> [] \<and> digits_value (snd (scan_int s)) < 18446744073709551616
          \<and> w = (if fst (scan_int s) then - word_of_nat (digits_value (snd (scan_int s)))
                  else word_of_nat (digits_value (snd (scan_int s)))))"
    by (subst stoull_cases) auto
  have tie_vram: "vram (it_files it) dev =
            Inr (to_string (unat (w div (1024 * 1024))) @ m_vram_str dev,
                 ddiv (double_of_ull w) (double_of_ull (m_vram dev)))"
    if "stoull (line ''mem_info_vram_used'') = Inr w"
    using that unfolding assms(3) by (simp add: vram_def bind_exn_def Let_def)
  have tie_busy: "busy u (it_files it) dev =
            Inr (line ''gpu_busy_percent'' @ ''%'', dmul v (round_double (1 / 100)))"
    if "stod u (line ''gpu_busy_percent'') = Inr v"
    using that unfolding assms(3) by (simp add: busy_def bind_exn_def Let_def)
  have c1: "rows ! 0 \<and> (\<exists>e. stod u (line ''gpu_busy_percent'') = Inl e)
      \<or> rows ! 1 \<and> (\<exists>e. stoull (line ''mem_info_vram_used'') = Inl e)
      \<or> rows ! 2 \<and> (\<exists>e. stoull (line ''mem_info_gtt_used'') = Inl e)
      \<or> rows ! 3 \<and> (\<exists>e. stoull (line ''mem_info_vis_vram_used'') = Inl e)
      \<or> rows ! 4 \<and> (\<exists>e. stoull (line ''hwmon/hwmon1/power1_average'') = Inl e)
      \<or> rows ! 5 \<and> (\<exists>e. stoull (line ''hwmon/hwmon1/temp1_input'') = Inl e)
      \<or> rows ! 6 \<and> (\<exists>e. stod u (line ''hwmon/hwmon1/fan1_input'') = Inl e)
      \<or> rows ! 8 \<and> (\<exists>e. stoull (line ''hwmon/hwmon1/freq1_input'') = Inl e)
      \<or> rows ! 9 \<and> (\<exists>e. stoull (line ''hwmon/hwmon1/freq2_input'') = Inl e)
      \<longrightarrow> (\<exists>e. run = Terminated e) \<or> run = Undefined_run"
    by (rule impI) (rule any)
  have c2: "int_ok (it_cols it - text_len) \<and> int_ok (it_cols it - text_len - hpad)
          \<and> rows ! 0 \<and> stod u (line ''gpu_busy_percent'') = Inl e
        \<longrightarrow> run = Terminated e"
    by (rule impI) (rule first, simp_all)
  have c3: "int_ok (it_cols it - text_len) \<and> int_ok (it_cols it - text_len - hpad)
          \<and> \<not> rows ! 0 \<and> rows ! 1 \<and> stoull (line ''mem_info_vram_used'') = Inl e
        \<longrightarrow> run = Terminated e"
    by (rule impI) (rule second, simp_all)
  have c8: "stoull (line ''mem_info_vram_used'') = Inr w \<longrightarrow>
          vram (it_files it) dev =
            Inr (to_string (unat (w div (1024 * 1024))) @ m_vram_str dev,
                 ddiv (double_of_ull w) (double_of_ull (m_vram dev)))"
    by (rule impI) (rule tie_vram)
  have c9: "stod u (line ''gpu_busy_percent'') = Inr v \<longrightarrow>
          busy u (it_files it) dev =
            Inr (line ''gpu_busy_percent'' @ ''%'', dmul v (round_double (1 / 100)))"
    by (rule impI) (rule tie_busy)
  show ?thesis
    by (intro conjI c1 c2 c3 invalid range val stod_invalid c8 c9)
qed

theorem malformed_reading_is_fatal_witness:
  "\<not> it_should_close (one_tick files_busy_text)
   \<and> int_ok (it_cols (one_tick files_busy_text) - text_len)
   \<and> int_ok (it_cols (one_tick files_busy_text) - text_len - hpad)
   \<and> cfg_enabled_rows initial_config ! 0
   \<and> stod erange_always (read_file files_busy_text (m_path dev_uncalibrated) ''gpu_busy_percent'')
       = Inl Invalid_argument
   \<and> render_loop erange_always initial_config dev_uncalibrated [one_tick files_busy_text]
       = Terminated Invalid_argument
   \<and> \<not> cfg_enabled_rows cfg_no_busy ! 0
   \<and> cfg_enabled_rows cfg_no_busy ! 1
   \<and> stoull (read_file files_blank_line (m_path dev_uncalibrated) ''mem_info_vram_used'')
       = Inl Invalid_argument
   \<and> render_loop erange_always cfg_no_busy dev_uncalibrated [one_tick files_blank_line]
       = Terminated Invalid_argument
   \<and> stoull (read_file files_trailing_text (m_path dev_1gib) ''mem_info_vram_used'') = Inr 536870912
   \<and> vram files_trailing_text dev_1gib = Inr (''512/1024MiB'', Fin (1 / 2))
   \<and> stod erange_always (read_file files_busy_37 (m_path dev_uncalibrated) ''gpu_busy_percent'')
       = Inr (Fin 37)
   \<and> busy erange_always files_busy_37 dev_uncalibrated
       = Inr (''37%'', Fin (3332663724254167 / 9007199254740992))"
proof -
  have open1: "\<not> it_should_close (one_tick files)" for files
    by (simp add: one_tick_def)
  have wide: "int_ok (it_cols (one_tick files) - text_len)"
    "int_ok (it_cols (one_tick files) - text_len - hpad)" for files
    by (simp_all add: one_tick_def text_len_def hpad_def int_ok_def)
  have files1: "it_files (one_tick files) = files" for files
    by (simp add: one_tick_def)
  have all_on: "cfg_enabled_rows initial_config ! 0"
    by (simp add: initial_config_def fresh_rows)
  have busy_off: "\<not> cfg_enabled_rows cfg_no_busy ! 0" "cfg_enabled_rows cfg_no_busy ! 1"
    by (simp_all add: cfg_no_busy_def disable_eval)
  have no_number: "stod erange_always
      (read_file files_busy_text (m_path dev_uncalibrated) ''gpu_busy_percent'') = Inl Invalid_argument"
    by (simp add: line_eval files_busy_text_def stod_eval)
  have blank: "stoull
      (read_file files_blank_line (m_path dev_uncalibrated) ''mem_info_vram_used'') = Inl Invalid_argument"
    by (simp add: line_eval files_blank_line_def stoull_empty)
  have number: "stoull
      (read_file files_trailing_text (m_path dev_1gib) ''mem_info_vram_used'') = Inr 536870912"
    by (simp add: line_eval files_trailing_text_def dev_1gib_def stoull_eval)
  have percent: "stod erange_always
      (read_file files_busy_37 (m_path dev_uncalibrated) ''gpu_busy_percent'') = Inr (Fin 37)"
    by (simp add: line_eval files_busy_37_def stod_eval rd_eval)
  have r1: "render_loop erange_always initial_config dev_uncalibrated [one_tick files_busy_text]
      = Terminated Invalid_argument"
    by (rule malformed_reading_is_fatal
          [where it = "one_tick files_busy_text" and cfg = initial_config
             and dev = dev_uncalibrated and u = erange_always and its = "[]"
             and e = Invalid_argument,
           OF open1 refl refl refl, unfolded files1, THEN conjunct2, THEN conjunct1, THEN mp])
      (intro conjI wide all_on no_number)
  have r2: "render_loop erange_always cfg_no_busy dev_uncalibrated [one_tick files_blank_line]
      = Terminated Invalid_argument"
    by (rule malformed_reading_is_fatal
          [where it = "one_tick files_blank_line" and cfg = cfg_no_busy
             and dev = dev_uncalibrated and u = erange_always and its = "[]"
             and e = Invalid_argument,
           OF open1 refl refl refl, unfolded files1, THEN conjunct2, THEN conjunct2,
           THEN conjunct1, THEN mp])
      (intro conjI wide busy_off blank)
  have "vram files_trailing_text dev_1gib =
      Inr (to_string (unat (536870912 div (1024 * 1024) :: ull)) @ m_vram_str dev_1gib,
           ddiv (double_of_ull 536870912) (double_of_ull (m_vram dev_1gib)))"
    by (rule malformed_reading_is_fatal
          [where it = "one_tick files_trailing_text" and cfg = initial_config
             and dev = dev_1gib and u = erange_always and its = "[]" and w = 536870912,
           OF open1 refl refl refl, unfolded files1, THEN conjunct2, THEN conjunct2,
           THEN conjunct2, THEN conjunct2, THEN conjunct2, THEN conjunct2, THEN conjunct2,
           THEN conjunct1, THEN mp])
      (rule number)
  then have r3: "vram files_trailing_text dev_1gib = Inr (''512/1024MiB'', Fin (1 / 2))"
    by (simp add: dev_1gib_def dev_uncalibrated_def to_string.simps digit_char_def
        double_of_ull_def rd_eval)
  have "busy erange_always files_busy_37 dev_uncalibrated =
      Inr (read_file files_busy_37 (m_path dev_uncalibrated) ''gpu_busy_percent'' @ ''%'',
           dmul (Fin 37) (round_double (1 / 100)))"
    by (rule malformed_reading_is_fatal
          [where it = "one_tick files_busy_37" and cfg = initial_config
             and dev = dev_uncalibrated and u = erange_always and its = "[]" and v = "Fin 37",
           OF open1 refl refl refl, unfolded files1, THEN conjunct2, THEN conjunct2,
           THEN conjunct2, THEN conjunct2, THEN conjunct2, THEN conjunct2, THEN conjunct2,
           THEN conjunct2, THEN mp])
      (rule percent)
  then have r4: "busy erange_always files_busy_37 dev_uncalibrated
       = Inr (''37%'', Fin (3332663724254167 / 9007199254740992))"
    by (simp add: line_eval files_busy_37_def rd_eval)
  show ?thesis
    by (intro conjI open1 wide all_on no_number r1 busy_off blank r2 number r3 percent r4)
qed

end
